theory Spec2Isabelle
  imports Main
begin

section \<open>Values exchanged with the outside world\<close>

text \<open>
  The bot of \<^verbatim>\<open>app.py\<close> keeps one dictionary per user (\<^verbatim>\<open>context.user_data\<close>),
  answers chat updates, fetches a conversion rate and posts one record to a table store.
  Exceptions are values of type \<open>error\<close>; a computation that may raise returns
  \<open>error + 'a\<close>, with \<open>Inl\<close> for the exception.
\<close>

datatype error =
    KeyError
  | TypeError
  | AttributeError
  | IndexError
  | ValueError string
  | OverflowError
  | InvalidOperation
  | Overflow
  | RequestsError

text \<open>
  A Python float is a sign, a mantissa and a binary exponent (value \<open>m * 2 ^ e\<close>), or
  one of the special values. A decimal is the sign, coefficient and exponent of
  \<^verbatim>\<open>decimal.Decimal\<close> (value \<open>c * 10 ^ e\<close>), an infinity, or a quiet or signalling
  NaN with its payload.
\<close>

datatype pyfloat = Flt bool nat int | FInf bool | FNaN

datatype decimal = Finite bool nat int | Infinity bool | NaN bool bool nat

text \<open>
  What \<^verbatim>\<open>response.json()\<close> returns. An object is the list of the items of the
  resulting dictionary.
\<close>

datatype json =
    JNull
  | JBool bool
  | JInt int
  | JFloat pyfloat
  | JStr string
  | JArr "json list"
  | JObj "(string \<times> json) list"

section \<open>Dictionaries in insertion order\<close>

type_synonym 'v dict = "(string \<times> 'v) list"

definition dict_get :: "'v dict \<Rightarrow> string \<Rightarrow> 'v option" where
  "dict_get d k = map_of d k"

definition dict_get_default :: "'v dict \<Rightarrow> string \<Rightarrow> 'v \<Rightarrow> 'v" where
  "dict_get_default d k dflt = (case map_of d k of None \<Rightarrow> dflt | Some v \<Rightarrow> v)"

definition dict_contains :: "'v dict \<Rightarrow> string \<Rightarrow> bool" where
  "dict_contains d k = (k \<in> set (map fst d))"

text \<open>\<^verbatim>\<open>d[k] = v\<close>: a key already present keeps its place, a new key goes last.\<close>

definition dict_set :: "'v dict \<Rightarrow> string \<Rightarrow> 'v \<Rightarrow> 'v dict" where
  "dict_set d k v =
     (if dict_contains d k then map (\<lambda>(k', v'). if k' = k then (k', v) else (k', v')) d
      else d @ [(k, v)])"

text \<open>\<^verbatim>\<open>del d[k]\<close> raises \<^verbatim>\<open>KeyError\<close> on a missing key.\<close>

definition dict_del :: "'v dict \<Rightarrow> string \<Rightarrow> error + 'v dict" where
  "dict_del d k =
     (if dict_contains d k then Inr (filter (\<lambda>(k', v'). k' \<noteq> k) d) else Inl KeyError)"

section \<open>The exchange-rate client\<close>

text \<open>\<^verbatim>\<open>x["rates"]\<close> on a value decoded from JSON.\<close>

fun json_subscript :: "json \<Rightarrow> string \<Rightarrow> error + json" where
  "json_subscript (JObj kvs) k = (case map_of kvs k of None \<Rightarrow> Inl KeyError | Some v \<Rightarrow> Inr v)"
| "json_subscript _ k = Inl TypeError"

text \<open>\<^verbatim>\<open>x.get("USD", 1.0)\<close>: only a dictionary has the method.\<close>

fun json_get :: "json \<Rightarrow> string \<Rightarrow> json \<Rightarrow> error + json" where
  "json_get (JObj kvs) k dflt = Inr (dict_get_default kvs k dflt)"
| "json_get _ k dflt = Inl AttributeError"

definition one_point_zero :: json where
  "one_point_zero = JFloat (Flt False 1 0)"

text \<open>
  \<^verbatim>\<open>get_exchange_rate\<close>; its argument is the outcome of the GET request and of decoding
  its body.
\<close>

definition get_exchange_rate :: "error + json \<Rightarrow> error + json" where
  "get_exchange_rate fetched =
     (case fetched of
        Inl e \<Rightarrow> Inl e
      | Inr data \<Rightarrow>
          (case json_subscript data ''rates'' of
             Inl e \<Rightarrow> Inl e
           | Inr rates \<Rightarrow> json_get rates ''USD'' one_point_zero))"

section \<open>Decimal numbers\<close>

text \<open>
  The operations of Python's \<^verbatim>\<open>decimal\<close> module that the bot calls: the constructor
  \<^verbatim>\<open>Decimal(x)\<close>, which is exact, and the product under the default context
  (28 significant digits, rounding half to even, exponents from -999999 to 999999, traps
  on invalid operations and overflow). Texts are ASCII.
\<close>

definition is_space :: "char \<Rightarrow> bool" where
  "is_space c = ((of_char c :: nat) \<in> {9, 10, 11, 12, 13, 28, 29, 30, 31, 32})"

definition strip :: "string \<Rightarrow> string" where
  "strip t = rev (dropWhile is_space (rev (dropWhile is_space t)))"

definition is_digit :: "char \<Rightarrow> bool" where
  "is_digit c = (48 \<le> (of_char c :: nat) \<and> (of_char c :: nat) \<le> 57)"

definition digit_val :: "char \<Rightarrow> nat" where
  "digit_val c = of_char c - 48"

definition nat_of_digits :: "string \<Rightarrow> nat" where
  "nat_of_digits ds = foldl (\<lambda>a c. 10 * a + digit_val c) 0 ds"

text \<open>The number of decimal digits of a coefficient; the coefficient zero is the digit 0.\<close>

fun ndigits :: "nat \<Rightarrow> nat" where
  "ndigits n = (if n < 10 then 1 else Suc (ndigits (n div 10)))"

declare ndigits.simps [simp del]

text \<open>
  The constructor refuses a finite number that does not fit the largest context of the
  library (64-bit build) without rounding.
\<close>

definition finite_exact :: "bool \<Rightarrow> nat \<Rightarrow> int \<Rightarrow> decimal option" where
  "finite_exact sign c e =
     (if e + int (ndigits c) - 1 \<le> 999999999999999999 \<and> - 1999999999999999997 \<le> e
      then Some (Finite sign c e) else None)"

definition unsigned_digits :: "string \<Rightarrow> int option" where
  "unsigned_digits ds =
     (if ds \<noteq> [] \<and> list_all is_digit ds then Some (int (nat_of_digits ds)) else None)"

fun signed_digits :: "string \<Rightarrow> int option" where
  "signed_digits [] = None"
| "signed_digits (c # cs) =
     (if c = CHR ''+'' then unsigned_digits cs
      else if c = CHR ''-'' then map_option uminus (unsigned_digits cs)
      else unsigned_digits (c # cs))"

text \<open>Digits, an optional point with more digits, an optional exponent.\<close>

definition parse_number :: "bool \<Rightarrow> string \<Rightarrow> decimal option" where
  "parse_number sign t =
     (let ip = takeWhile is_digit t;
          r1 = dropWhile is_digit t;
          pointed = (r1 \<noteq> [] \<and> hd r1 = CHR ''.'');
          fp = (if pointed then takeWhile is_digit (tl r1) else []);
          r2 = (if pointed then dropWhile is_digit (tl r1) else r1);
          coeff = nat_of_digits (ip @ fp)
      in if ip = [] \<and> fp = [] then None
         else if r2 = [] then finite_exact sign coeff (- int (length fp))
         else if hd r2 = CHR ''e'' \<or> hd r2 = CHR ''E'' then
           (case signed_digits (tl r2) of
              None \<Rightarrow> None
            | Some e \<Rightarrow> finite_exact sign coeff (e - int (length fp)))
         else None)"

definition lower_char :: "char \<Rightarrow> char" where
  "lower_char c =
     (if 65 \<le> (of_char c :: nat) \<and> (of_char c :: nat) \<le> 90
      then char_of ((of_char c :: nat) + 32) else c)"

text \<open>\<^verbatim>\<open>str.lower\<close> on the letters A to Z.\<close>

definition lower :: "string \<Rightarrow> string" where
  "lower t = map lower_char t"

text \<open>Infinity and NaN, in any letter case; a NaN may carry digits.\<close>

definition parse_special :: "bool \<Rightarrow> string \<Rightarrow> decimal option" where
  "parse_special sign t =
     (let l = lower t
      in if l = ''inf'' \<or> l = ''infinity'' then Some (Infinity sign)
         else if take 3 l = ''nan'' \<and> list_all is_digit (drop 3 l)
           then Some (NaN sign False (nat_of_digits (drop 3 l)))
         else if take 4 l = ''snan'' \<and> list_all is_digit (drop 4 l)
           then Some (NaN sign True (nat_of_digits (drop 4 l)))
         else None)"

text \<open>
  \<^verbatim>\<open>Decimal(text)\<close>: blanks around the text and underscores inside it are dropped; the
  result is \<open>None\<close> where the constructor raises \<^verbatim>\<open>InvalidOperation\<close>.
\<close>

definition Decimal_of_str :: "string \<Rightarrow> decimal option" where
  "Decimal_of_str t =
     (let u = filter (\<lambda>c. c \<noteq> CHR ''_'') (strip t);
          signed = (u \<noteq> [] \<and> (hd u = CHR ''-'' \<or> hd u = CHR ''+''));
          sign = (u \<noteq> [] \<and> hd u = CHR ''-'');
          body = (if signed then tl u else u)
      in case parse_special sign body of
           Some d \<Rightarrow> Some d
         | None \<Rightarrow> parse_number sign body)"

definition Decimal_of_int :: "int \<Rightarrow> decimal" where
  "Decimal_of_int n = Finite (n < 0) (nat \<bar>n\<bar>) 0"

text \<open>
  \<^verbatim>\<open>Decimal(f)\<close> for a float: the exact value of the binary fraction. The float's ratio
  in lowest terms is \<open>n / 2 ^ k\<close>, and the decimal is \<open>n * 5 ^ k\<close> with exponent \<open>- k\<close>.
\<close>

fun lowest_terms :: "nat \<Rightarrow> nat \<Rightarrow> nat \<times> nat" where
  "lowest_terms m k =
     (if k = 0 then (m, 0)
      else if m = 0 then (0, 0)
      else if odd m then (m, k)
      else lowest_terms (m div 2) (k - 1))"

declare lowest_terms.simps [simp del]

fun Decimal_of_float :: "pyfloat \<Rightarrow> decimal" where
  "Decimal_of_float (Flt sign m e) =
     (if 0 \<le> e then Finite sign (m * 2 ^ nat e) 0
      else (case lowest_terms m (nat (- e)) of (n, k) \<Rightarrow> Finite sign (n * 5 ^ k) (- int k)))"
| "Decimal_of_float (FInf sign) = Infinity sign"
| "Decimal_of_float FNaN = NaN False False 0"

text \<open>
  \<^verbatim>\<open>Decimal([sign, digits, exponent])\<close>. JSON booleans count as the integers 0 and 1.
\<close>

fun as_int :: "json \<Rightarrow> int option" where
  "as_int (JInt n) = Some n"
| "as_int (JBool b) = Some (if b then 1 else 0)"
| "as_int _ = None"

definition fits_long :: "int \<Rightarrow> bool" where
  "fits_long n = (- (2 ^ 63) \<le> n \<and> n < 2 ^ 63)"

definition coefficient_msg :: string where
  "coefficient_msg = ''coefficient must be a tuple of digits''"

fun triple_digits :: "nat \<Rightarrow> json list \<Rightarrow> error + nat" where
  "triple_digits acc [] = Inr acc"
| "triple_digits acc (x # xs) =
     (case as_int x of
        None \<Rightarrow> Inl (ValueError coefficient_msg)
      | Some d \<Rightarrow>
          if \<not> fits_long d then Inl OverflowError
          else if d < 0 \<or> 9 < d then Inl (ValueError coefficient_msg)
          else triple_digits (10 * acc + nat d) xs)"

fun triple_coefficient :: "json \<Rightarrow> error + nat" where
  "triple_coefficient (JArr xs) = triple_digits 0 xs"
| "triple_coefficient _ = Inl (ValueError coefficient_msg)"

definition triple_exponent :: "bool \<Rightarrow> json \<Rightarrow> json \<Rightarrow> error + decimal" where
  "triple_exponent sign ds ex =
     (case ex of
        JStr t \<Rightarrow>
          if t = ''F'' then
            (case triple_coefficient ds of Inl e \<Rightarrow> Inl e | Inr c \<Rightarrow> Inr (Infinity sign))
          else if t = ''n'' then
            (case triple_coefficient ds of Inl e \<Rightarrow> Inl e | Inr c \<Rightarrow> Inr (NaN sign False c))
          else if t = ''N'' then
            (case triple_coefficient ds of Inl e \<Rightarrow> Inl e | Inr c \<Rightarrow> Inr (NaN sign True c))
          else Inl (ValueError ''string argument in the third position must be F, n or N'')
      | _ \<Rightarrow>
          (case as_int ex of
             None \<Rightarrow> Inl (ValueError ''exponent must be an integer'')
           | Some e \<Rightarrow>
               if \<not> fits_long e then Inl OverflowError
               else
                 (case triple_coefficient ds of
                    Inl er \<Rightarrow> Inl er
                  | Inr c \<Rightarrow>
                      (case finite_exact sign c e of
                         None \<Rightarrow> Inl InvalidOperation
                       | Some d \<Rightarrow> Inr d))))"

definition Decimal_of_triple :: "json \<Rightarrow> json \<Rightarrow> json \<Rightarrow> error + decimal" where
  "Decimal_of_triple sg ds ex =
     (case as_int sg of
        None \<Rightarrow> Inl (ValueError ''sign must be an integer with the value 0 or 1'')
      | Some sn \<Rightarrow>
          if \<not> fits_long sn then Inl OverflowError
          else if sn \<noteq> 0 \<and> sn \<noteq> 1
            then Inl (ValueError ''sign must be an integer with the value 0 or 1'')
          else triple_exponent (sn = 1) ds ex)"

text \<open>\<^verbatim>\<open>Decimal(x)\<close> for a value decoded from JSON.\<close>

fun Decimal_of_json :: "json \<Rightarrow> error + decimal" where
  "Decimal_of_json (JInt n) = Inr (Decimal_of_int n)"
| "Decimal_of_json (JBool b) = Inr (Decimal_of_int (if b then 1 else 0))"
| "Decimal_of_json (JFloat f) = Inr (Decimal_of_float f)"
| "Decimal_of_json (JStr t) =
     (case Decimal_of_str t of None \<Rightarrow> Inl InvalidOperation | Some d \<Rightarrow> Inr d)"
| "Decimal_of_json (JArr [sg, ds, ex]) = Decimal_of_triple sg ds ex"
| "Decimal_of_json (JArr xs) = Inl (ValueError ''argument must be a sequence of length 3'')"
| "Decimal_of_json JNull = Inl TypeError"
| "Decimal_of_json (JObj kvs) = Inl TypeError"

subsection \<open>The product under the default context\<close>

definition prec :: nat where "prec = 28"
definition Emax :: int where "Emax = 999999"
definition Emin :: int where "Emin = - 999999"
definition Etiny :: int where "Etiny = Emin - int prec + 1"
definition Etop :: int where "Etop = Emax - int prec + 1"

text \<open>
  Rounding a finite result to the context: a result with more than \<open>prec\<close> digits loses
  its last digits, half to even; a result beyond \<open>Emax\<close> raises \<^verbatim>\<open>Overflow\<close>; a result
  below the smallest exponent is rounded at \<open>Etiny\<close>.
\<close>

definition fix_finite :: "bool \<Rightarrow> nat \<Rightarrow> int \<Rightarrow> error + decimal" where
  "fix_finite sign c e =
     (if c = 0 then Inr (Finite sign 0 (min (max e Etiny) Emax))
      else
        let exp_min0 = int (ndigits c) + e - int prec
        in if Etop < exp_min0 then Inl Overflow
           else
             let exp_min = max exp_min0 Etiny
             in if e < exp_min then
                  let d = nat (exp_min - e);
                      q = c div 10 ^ d;
                      r = c mod 10 ^ d;
                      up = (10 ^ d < 2 * r \<or> (2 * r = 10 ^ d \<and> odd q));
                      coeff = (if up then q + 1 else q);
                      carried = (prec < ndigits coeff);
                      coeff' = (if carried then coeff div 10 else coeff);
                      exp_min' = (if carried then exp_min + 1 else exp_min)
                  in if Etop < exp_min' then Inl Overflow
                     else Inr (Finite sign coeff' exp_min')
                else Inr (Finite sign c e))"

text \<open>\<^verbatim>\<open>a * b\<close>: a signalling NaN is an invalid operation, and so is infinity times zero.\<close>

fun is_snan :: "decimal \<Rightarrow> bool" where
  "is_snan (NaN sign signalling payload) = signalling"
| "is_snan _ = False"

fun is_nan :: "decimal \<Rightarrow> bool" where
  "is_nan (NaN sign signalling payload) = True"
| "is_nan _ = False"

fun fix_nan :: "decimal \<Rightarrow> decimal" where
  "fix_nan (NaN sign signalling payload) = NaN sign signalling (payload mod 10 ^ prec)"
| "fix_nan d = d"

fun is_zero :: "decimal \<Rightarrow> bool" where
  "is_zero (Finite sign c e) = (c = 0)"
| "is_zero _ = False"

fun sign_of :: "decimal \<Rightarrow> bool" where
  "sign_of (Finite sign c e) = sign"
| "sign_of (Infinity sign) = sign"
| "sign_of (NaN sign signalling payload) = sign"

fun is_infinite :: "decimal \<Rightarrow> bool" where
  "is_infinite (Infinity sign) = True"
| "is_infinite _ = False"

fun mul_finite :: "decimal \<Rightarrow> decimal \<Rightarrow> error + decimal" where
  "mul_finite (Finite s1 c1 e1) (Finite s2 c2 e2) = fix_finite (s1 \<noteq> s2) (c1 * c2) (e1 + e2)"
| "mul_finite a b = Inl InvalidOperation"

definition mul :: "decimal \<Rightarrow> decimal \<Rightarrow> error + decimal" where
  "mul a b =
     (if is_nan a \<or> is_nan b then
        (if is_snan a \<or> is_snan b then Inl InvalidOperation
         else if is_nan a then Inr (fix_nan a)
         else Inr (fix_nan b))
      else if is_infinite a then
        (if is_zero b then Inl InvalidOperation else Inr (Infinity (sign_of a \<noteq> sign_of b)))
      else if is_infinite b then
        (if is_zero a then Inl InvalidOperation else Inr (Infinity (sign_of a \<noteq> sign_of b)))
      else mul_finite a b)"

section \<open>The record-store client\<close>

definition url_108 :: string where
  "url_108 = ''https://api.airtable.com/v0/appT4yGhNwVtyB8jR/Income%20%26%20Expenses''"

definition url_103 :: string where
  "url_103 = ''https://api.airtable.com/v0/appqfgm6p6MSGLfI3/Income%20%26%20Expenses''"

text \<open>The first statement of \<^verbatim>\<open>update_airtable\<close>: the URL for an apartment code.\<close>

definition airtable_url :: "string \<Rightarrow> error + string" where
  "airtable_url apt =
     (if apt = ''108'' then Inr url_108
      else if apt = ''103'' then Inr url_103
      else Inl (ValueError ''Invalid apt value''))"

section \<open>The conversation\<close>

datatype conv_state = CHOOSING | TYPING_REPLY | TYPING_CHOICE | TYPING_APT | END

text \<open>
  An update is a message with its text, flagged when the text starts with a bot command,
  or the press of an inline button with its callback data.
\<close>

datatype update = Message string bool | CallbackQuery string

datatype markup =
    ReplyKeyboardMarkup "string list list"
  | InlineKeyboardMarkup "(string \<times> string) list list"

text \<open>
  The state a handler works on: the user's dictionary, the messages sent to the chat so
  far and the POST requests issued so far.
\<close>

record airtable_fields =
  fld_Name :: string
  fld_Month :: string
  fld_Category :: string
  fld_Expense :: decimal
  fld_Notes :: string
  fld_Date :: string

record bot =
  user_data :: "string dict"
  sent :: "(string \<times> markup option) list"
  posts :: "(string \<times> airtable_fields) list"

definition newline :: string where
  "newline = [CHR 0x0A]"

definition reply_keyboard :: "string list list" where
  "reply_keyboard =
     [[''Name of Expense'', ''Expense Type''],
      [''Amount in GHS'', ''Notes'', ''Apt''],
      [''Done'']]"

definition expense_types :: "string list" where
  "expense_types =
     [''Electric'', ''Water'', ''Internet'', ''DSTV'', ''Cleaning Supplies'',
      ''Home Repairs and Maintenance'', ''HOA Service Charge'', ''Insurance'']"

definition apt_options :: "(string \<times> string) list" where
  "apt_options = [(''Option 103'', ''103''), (''Option 108'', ''108'')]"

text \<open>\<^verbatim>\<open>sep.join(xs)\<close>.\<close>

fun join :: "string \<Rightarrow> string list \<Rightarrow> string" where
  "join sep [] = []"
| "join sep [x] = x"
| "join sep (x # y # ys) = x @ sep @ join sep (y # ys)"

definition facts_to_str :: "string dict \<Rightarrow> string" where
  "facts_to_str ud =
     (let facts = map (\<lambda>(key, val). key @ '' - '' @ val) ud
      in join (join newline facts) [newline, newline])"

text \<open>\<^verbatim>\<open>update.message.text\<close> and \<^verbatim>\<open>update.message.reply_text\<close>: a button press has no message.\<close>

fun message_text :: "update \<Rightarrow> error + string" where
  "message_text (Message t c) = Inr t"
| "message_text (CallbackQuery d) = Inl AttributeError"

fun reply_text :: "update \<Rightarrow> string \<Rightarrow> markup option \<Rightarrow> bot \<Rightarrow> error + bot" where
  "reply_text (Message t c) txt mk s = Inr (s\<lparr>sent := sent s @ [(txt, mk)]\<rparr>)"
| "reply_text (CallbackQuery d) txt mk s = Inl AttributeError"

definition expense_type_choice :: "update \<Rightarrow> bot \<Rightarrow> (error + conv_state) \<times> bot" where
  "expense_type_choice u s =
     (let keyboard = map (\<lambda>expense. [(expense, expense)]) expense_types
      in (case reply_text u ''Please choose an expense type from the list below:''
                 (Some (InlineKeyboardMarkup keyboard)) s of
            Inl e \<Rightarrow> (Inl e, s)
          | Inr s' \<Rightarrow> (Inr TYPING_CHOICE, s')))"

definition apt_choice :: "update \<Rightarrow> bot \<Rightarrow> (error + conv_state) \<times> bot" where
  "apt_choice u s =
     (let keyboard = map (\<lambda>(name, val). [(name, val)]) apt_options
      in (case reply_text u ''Please choose an Apt option from the list below:''
                 (Some (InlineKeyboardMarkup keyboard)) s of
            Inl e \<Rightarrow> (Inl e, s)
          | Inr s' \<Rightarrow> (Inr TYPING_APT, s')))"

definition regular_choice :: "update \<Rightarrow> bot \<Rightarrow> (error + conv_state) \<times> bot" where
  "regular_choice u s =
     (case message_text u of
        Inl e \<Rightarrow> (Inl e, s)
      | Inr t \<Rightarrow>
          if t = ''Expense Type'' then expense_type_choice u s
          else if t = ''Apt'' then apt_choice u s
          else
            (let s1 = s\<lparr>user_data := dict_set (user_data s) ''choice'' t\<rparr>
             in (case reply_text u
                        (''Your '' @ lower t @ ''? Yes, I would love to hear about that!'')
                        None s1 of
                   Inl e \<Rightarrow> (Inl e, s1)
                 | Inr s2 \<Rightarrow> (Inr TYPING_REPLY, s2))))"

text \<open>
  \<^verbatim>\<open>received_information\<close>. The test \<^verbatim>\<open>if choice:\<close> fails for a missing entry and for
  the empty string.
\<close>

definition received_information :: "update \<Rightarrow> bot \<Rightarrow> (error + conv_state) \<times> bot" where
  "received_information u s =
     (case message_text u of
        Inl e \<Rightarrow> (Inl e, s)
      | Inr t \<Rightarrow>
          (case dict_get (user_data s) ''choice'' of
             Some (c # cs) \<Rightarrow>
               let choice = c # cs;
                   ud1 = dict_set (user_data s) choice t;
                   s1 = s\<lparr>user_data := ud1\<rparr>
               in (case dict_del ud1 ''choice'' of
                     Inl e \<Rightarrow> (Inl e, s1)
                   | Inr ud2 \<Rightarrow>
                       let s2 = s1\<lparr>user_data := ud2\<rparr>
                       in (case reply_text u
                                 (''Neat! Just so you know, this is what you already told me:''
                                  @ facts_to_str ud2
                                  @ ''You can tell me more, or change your opinion on something.'')
                                 (Some (ReplyKeyboardMarkup reply_keyboard)) s2 of
                             Inl e \<Rightarrow> (Inl e, s2)
                           | Inr s3 \<Rightarrow> (Inr CHOOSING, s3)))
           | _ \<Rightarrow>
               (case reply_text u ''I didn't receive the category. Please try again.''
                       (Some (ReplyKeyboardMarkup reply_keyboard)) s of
                  Inl e \<Rightarrow> (Inl e, s)
                | Inr s' \<Rightarrow> (Inr CHOOSING, s'))))"

subsection \<open>Which handler receives an update\<close>

text \<open>
  The handlers by name. \<^verbatim>\<open>start\<close> and the two handlers of button presses are
  named here for the dispatch only; their bodies are not modelled.
\<close>

datatype handler =
    Start
  | Regular_choice
  | Expense_type_selected
  | Apt_selected
  | Received_information
  | Done

text \<open>
  \<^verbatim>\<open>filters.Regex("^(a|b)$")\<close> searches the text: the alternatives match as the whole
  text, or as the whole text before one final line break.
\<close>

definition regex_whole :: "string list \<Rightarrow> string \<Rightarrow> bool" where
  "regex_whole alts t = (t \<in> set alts \<or> t \<in> set (map (\<lambda>a. a @ newline) alts))"

definition command_name :: "string \<Rightarrow> string" where
  "command_name t = lower (takeWhile (\<lambda>c. c \<noteq> CHR '' '' \<and> c \<noteq> CHR ''@'') (drop 1 t))"

text \<open>The handlers registered in \<^verbatim>\<open>main\<close> for each state, tried in order.\<close>

fun state_handler :: "conv_state \<Rightarrow> update \<Rightarrow> handler option" where
  "state_handler CHOOSING (Message t c) =
     (if regex_whole [''Name of Expense'', ''Expense Type'', ''Amount in GHS'', ''Notes'', ''Apt''] t
      then Some Regular_choice else None)"
| "state_handler TYPING_CHOICE (CallbackQuery d) = Some Expense_type_selected"
| "state_handler TYPING_APT (CallbackQuery d) = Some Apt_selected"
| "state_handler TYPING_REPLY (Message t c) =
     (if t \<noteq> [] \<and> \<not> (c \<or> regex_whole [''Done''] t) then Some Received_information else None)"
| "state_handler st u = None"

fun fallback_handler :: "update \<Rightarrow> handler option" where
  "fallback_handler (Message t c) = (if regex_whole [''Done''] t then Some Done else None)"
| "fallback_handler (CallbackQuery d) = None"

fun entry_point :: "update \<Rightarrow> handler option" where
  "entry_point (Message t c) = (if c \<and> command_name t = ''start'' then Some Start else None)"
| "entry_point (CallbackQuery d) = None"

text \<open>
  The choice made by the conversation handler: with no conversation under way only the
  entry point is tried; in a conversation the handlers of the current state come first
  and the fallbacks are tried when none of them accepts the update.
\<close>

fun select_handler :: "conv_state option \<Rightarrow> update \<Rightarrow> handler option" where
  "select_handler None u = entry_point u"
| "select_handler (Some st) u =
     (case state_handler st u of Some h \<Rightarrow> Some h | None \<Rightarrow> fallback_handler u)"

section \<open>Completing the conversation\<close>

text \<open>
  What the handlers cannot decide themselves: the outcome of the GET request to the rate
  service with the decoding of its body, the outcome of a POST to the table store (any
  exception of the HTTP library, a status outside 2xx included, or the decoded body),
  and the clock.
\<close>

record env =
  fetched_rates :: "error + json"
  posted :: "string \<Rightarrow> airtable_fields \<Rightarrow> error + json"
  now_month :: string
  now_date :: string

text \<open>A store that answers every POST with the same body, and one that always fails.\<close>

definition store_answers :: "json \<Rightarrow> string \<Rightarrow> airtable_fields \<Rightarrow> error + json" where
  "store_answers body url data = Inr body"


text \<open>
  \<^verbatim>\<open>update_airtable\<close>. The field \<open>fld_Expense\<close> holds the decimal handed to
  \<^verbatim>\<open>float\<close>, which refuses a signalling NaN; the binary rounding of the wire value is
  left out.
\<close>

definition update_airtable ::
  "env \<Rightarrow> string \<Rightarrow> string \<Rightarrow> decimal \<Rightarrow> string \<Rightarrow> string \<Rightarrow> bot \<Rightarrow> (error + json) \<times> bot"
where
  "update_airtable env name expense_type expense notes apt s =
     (case airtable_url apt of
        Inl e \<Rightarrow> (Inl e, s)
      | Inr url \<Rightarrow>
          if is_snan expense then (Inl (ValueError ''cannot convert signaling NaN to float''), s)
          else
            (let data = \<lparr>fld_Name = name, fld_Month = now_month env,
                         fld_Category = expense_type, fld_Expense = expense,
                         fld_Notes = notes, fld_Date = now_date env\<rparr>;
                 s' = s\<lparr>posts := posts s @ [(url, data)]\<rparr>
             in (posted env url data, s')))"

text \<open>The \<^verbatim>\<open>try\<close> block of \<^verbatim>\<open>done\<close>: any failure of the constructor gives zero.\<close>

definition amount_of_text :: "string \<Rightarrow> decimal" where
  "amount_of_text amount_str =
     (case Decimal_of_str amount_str of Some d \<Rightarrow> d | None \<Rightarrow> Decimal_of_int 0)"

text \<open>The conversion to USD: the rate is fetched, made a decimal and multiplied.\<close>

definition convert_to_usd :: "error + json \<Rightarrow> decimal \<Rightarrow> error + decimal" where
  "convert_to_usd fetched amount_ghs =
     (case get_exchange_rate fetched of
        Inl e \<Rightarrow> Inl e
      | Inr exchange_rate \<Rightarrow>
          (case Decimal_of_json exchange_rate of
             Inl e \<Rightarrow> Inl e
           | Inr rate \<Rightarrow> mul amount_ghs rate))"

text \<open>\<^verbatim>\<open>k in x\<close>, \<^verbatim>\<open>len(x)\<close> and \<^verbatim>\<open>x[0]\<close> on values decoded from JSON.\<close>

fun substring :: "string \<Rightarrow> string \<Rightarrow> bool" where
  "substring k [] = (k = [])"
| "substring k (c # cs) = (take (length k) (c # cs) = k \<or> substring k cs)"

fun json_contains :: "json \<Rightarrow> string \<Rightarrow> error + bool" where
  "json_contains (JObj kvs) k = Inr (k \<in> set (map fst kvs))"
| "json_contains (JArr xs) k = Inr (JStr k \<in> set xs)"
| "json_contains (JStr t) k = Inr (substring k t)"
| "json_contains _ k = Inl TypeError"

fun json_len :: "json \<Rightarrow> error + nat" where
  "json_len (JObj kvs) = Inr (length (remdups (map fst kvs)))"
| "json_len (JArr xs) = Inr (length xs)"
| "json_len (JStr t) = Inr (length t)"
| "json_len _ = Inl TypeError"

fun json_first :: "json \<Rightarrow> error + json" where
  "json_first (JArr []) = Inl IndexError"
| "json_first (JArr (x # xs)) = Inr x"
| "json_first (JStr []) = Inl IndexError"
| "json_first (JStr (c # cs)) = Inr (JStr [c])"
| "json_first (JObj kvs) = Inl KeyError"
| "json_first _ = Inl TypeError"

text \<open>
  The test on the store's answer:
  \<^verbatim>\<open>"records" in response and len(response["records"]) > 0 and "id" in response["records"][0]\<close>.
\<close>

definition records_created :: "json \<Rightarrow> error + bool" where
  "records_created response =
     (case json_contains response ''records'' of
        Inl e \<Rightarrow> Inl e
      | Inr False \<Rightarrow> Inr False
      | Inr True \<Rightarrow>
          (case json_subscript response ''records'' of
             Inl e \<Rightarrow> Inl e
           | Inr records \<Rightarrow>
               (case json_len records of
                  Inl e \<Rightarrow> Inl e
                | Inr n \<Rightarrow>
                    if 0 < n then
                      (case json_first records of
                         Inl e \<Rightarrow> Inl e
                       | Inr record \<Rightarrow> json_contains record ''id'')
                    else Inr False)))"

text \<open>
  \<^verbatim>\<open>done\<close>. Each statement that raises leaves the state as the statements before it
  made it.
\<close>

definition done_handler :: "env \<Rightarrow> update \<Rightarrow> bot \<Rightarrow> (error + conv_state) \<times> bot" where
  "done_handler env u s =
     (case (if dict_contains (user_data s) ''choice''
            then dict_del (user_data s) ''choice'' else Inr (user_data s)) of
        Inl e \<Rightarrow> (Inl e, s)
      | Inr ud \<Rightarrow>
          (let s1 = s\<lparr>user_data := ud\<rparr>;
               name = dict_get_default ud ''Name of Expense'' ''Unknown'';
               expense_type = dict_get_default ud ''Expense Type'' ''Uncategorized'';
               amount_str = dict_get_default ud ''Amount in GHS'' ''0'';
               notes = dict_get_default ud ''Notes'' '''';
               apt = dict_get_default ud ''Apt'' ''108'';
               amount_ghs = amount_of_text amount_str
           in (case convert_to_usd (fetched_rates env) amount_ghs of
                 Inl e \<Rightarrow> (Inl e, s1)
               | Inr amount_usd \<Rightarrow>
                   (case update_airtable env name expense_type amount_usd notes apt s1 of
                      (Inl e, s2) \<Rightarrow> (Inl e, s2)
                    | (Inr response, s2) \<Rightarrow>
                        (case records_created response of
                           Inl e \<Rightarrow> (Inl e, s2)
                         | Inr ok \<Rightarrow>
                             (case reply_text u
                                     (if ok then ''Successfully updated Airtable!''
                                      else ''Failed to update Airtable. Please try again later.'')
                                     None s2 of
                                Inl e \<Rightarrow> (Inl e, s2)
                              | Inr s3 \<Rightarrow> (Inr END, s3\<lparr>user_data := []\<rparr>)))))))"

text \<open>
  Equality of two finite decimals as \<^verbatim>\<open>==\<close> decides it: by value, not by
  representation.
\<close>

fun dec_eq :: "decimal \<Rightarrow> decimal \<Rightarrow> bool" where
  "dec_eq (Finite s1 c1 e1) (Finite s2 c2 e2) =
     ((c1 = 0 \<and> c2 = 0) \<or>
      (s1 = s2 \<and> c1 * 10 ^ nat (e1 - min e1 e2) = c2 * 10 ^ nat (e2 - min e1 e2)))"
| "dec_eq (Infinity s1) (Infinity s2) = (s1 = s2)"
| "dec_eq a b = False"

text \<open>
  A float that is the binary64 number nearest to the ratio \<open>num / den\<close>: a 53-bit
  mantissa within half a unit in the last place.
\<close>

fun nearest_double :: "nat \<Rightarrow> nat \<Rightarrow> pyfloat \<Rightarrow> bool" where
  "nearest_double num den (Flt sign m e) =
     (\<not> sign \<and> 0 < den \<and> 2 ^ 52 \<le> m \<and> m < 2 ^ 53 \<and> e < 0 \<and>
      2 * \<bar>int num * 2 ^ nat (- e) - int m * int den\<bar> \<le> int den)"
| "nearest_double num den f = False"

section \<open>Properties of the exchange-rate client\<close>

lemma get_exchange_rate_object:
  "get_exchange_rate (Inr (JObj kvs)) =
     (case map_of kvs ''rates'' of
        None \<Rightarrow> Inl KeyError
      | Some rates \<Rightarrow> json_get rates ''USD'' one_point_zero)"
  by (simp add: get_exchange_rate_def split: option.split)

lemma get_exchange_rate_not_object:
  "(\<forall>kvs. data \<noteq> JObj kvs) \<Longrightarrow> get_exchange_rate (Inr data) = Inl TypeError"
  by (cases data) (simp_all add: get_exchange_rate_def)

text \<open>
  Claim C8. When the decoded payload is an object whose \<open>rates\<close> entry is itself an
  object, \<open>get_exchange_rate\<close> returns the value stored under \<open>USD\<close> if that key is
  present, and the float \<open>1.0\<close> if it is absent.
\<close>

theorem get_exchange_rate_usd_or_default:
  assumes "map_of kvs ''rates'' = Some (JObj rates)"
  shows "get_exchange_rate (Inr (JObj kvs)) =
           Inr (case map_of rates ''USD'' of Some v \<Rightarrow> v | None \<Rightarrow> one_point_zero)"
  using assms by (simp add: get_exchange_rate_object dict_get_default_def split: option.split)

theorem get_exchange_rate_usd_or_default_witness:
  "get_exchange_rate (Inr (JObj [(''rates'', JObj [(''USD'', JInt 2)])])) = Inr (JInt 2) \<and>
   get_exchange_rate (Inr (JObj [(''base'', JStr ''GHS''), (''rates'', JObj [])])) =
     Inr (JFloat (Flt False 1 0))"
  using get_exchange_rate_usd_or_default
          [of "[(''rates'', JObj [(''USD'', JInt 2)])]" "[(''USD'', JInt 2)]"]
        get_exchange_rate_usd_or_default
          [of "[(''base'', JStr ''GHS''), (''rates'', JObj [])]" "[]"]
  by (simp add: one_point_zero_def)

text \<open>
  Claim C10. The \<open>1.0\<close> default is returned only for a payload that is an object with
  an object under \<open>rates\<close> that has no \<open>USD\<close> key. A payload with no \<open>rates\<close> key
  makes \<open>get_exchange_rate\<close> raise: \<open>KeyError\<close> for an object lacking the key,
  \<open>TypeError\<close> for a payload that is not an object at all.
\<close>

theorem get_exchange_rate_missing_rates:
  "(map_of kvs ''rates'' = None \<longrightarrow> get_exchange_rate (Inr (JObj kvs)) = Inl KeyError) \<and>
   ((\<forall>kvs'. data \<noteq> JObj kvs') \<longrightarrow> get_exchange_rate (Inr data) = Inl TypeError) \<and>
   (get_exchange_rate (Inr data') = Inr v \<longrightarrow>
      (\<exists>kvs' rates. data' = JObj kvs' \<and> map_of kvs' ''rates'' = Some (JObj rates) \<and>
         (map_of rates ''USD'' = Some v \<or> map_of rates ''USD'' = None \<and> v = one_point_zero)))"
proof (intro conjI impI)
  assume "map_of kvs ''rates'' = None"
  then show "get_exchange_rate (Inr (JObj kvs)) = Inl KeyError"
    by (simp add: get_exchange_rate_object)
next
  assume "\<forall>kvs'. data \<noteq> JObj kvs'"
  then show "get_exchange_rate (Inr data) = Inl TypeError"
    by (rule get_exchange_rate_not_object)
next
  assume ok: "get_exchange_rate (Inr data') = Inr v"
  then obtain kvs' where d: "data' = JObj kvs'"
    using get_exchange_rate_not_object [of data'] by auto
  with ok obtain r where r: "map_of kvs' ''rates'' = Some r" and g: "json_get r ''USD'' one_point_zero = Inr v"
    by (auto simp: get_exchange_rate_object split: option.splits)
  from g obtain rates where rs: "r = JObj rates"
    by (cases r) simp_all
  with g have "map_of rates ''USD'' = Some v \<or> map_of rates ''USD'' = None \<and> v = one_point_zero"
    by (auto simp: dict_get_default_def split: option.splits)
  with d r rs
  show "\<exists>kvs' rates. data' = JObj kvs' \<and> map_of kvs' ''rates'' = Some (JObj rates) \<and>
         (map_of rates ''USD'' = Some v \<or> map_of rates ''USD'' = None \<and> v = one_point_zero)"
    by blast
qed

theorem get_exchange_rate_missing_rates_witness:
  "get_exchange_rate (Inr (JObj [(''base'', JStr ''GHS'')])) = Inl KeyError \<and>
   get_exchange_rate (Inr (JArr [])) = Inl TypeError \<and>
   get_exchange_rate (Inr (JObj [(''rates'', JObj [])])) = Inr one_point_zero"
proof -
  have a: "map_of [(''base'', JStr ''GHS'')] ''rates'' = None" by simp
  have b: "\<forall>kvs'. JArr [] \<noteq> JObj kvs'" by simp
  have c: "get_exchange_rate (Inr (JObj [(''rates'', JObj [])])) = Inr one_point_zero"
    by (simp add: get_exchange_rate_def dict_get_default_def)
  from get_exchange_rate_missing_rates
         [of "[(''base'', JStr ''GHS'')]" "JArr []" "JObj [(''rates'', JObj [])]" one_point_zero]
       a b c
  show ?thesis by blast
qed

section \<open>Properties of the dictionary and of the summary\<close>

lemma keys_dict_set:
  "map fst (dict_set d k v) = (if k \<in> set (map fst d) then map fst d else map fst d @ [k])"
  by (induction d) (auto simp: dict_set_def dict_contains_def split: if_splits)

lemma map_of_replace:
  "map_of (map (\<lambda>(k', v'). if k' = k then (k', v) else (k', v')) d) x =
     (if x = k then (if k \<in> fst ` set d then Some v else None) else map_of d x)"
  by (induction d) (auto split: if_splits)

lemma map_of_dict_set:
  "map_of (dict_set d k v) = (map_of d)(k \<mapsto> v)"
proof (cases "dict_contains d k")
  case True
  then show ?thesis
    by (auto simp: dict_set_def dict_contains_def map_of_replace fun_eq_iff)
next
  case False
  then have "map_of d k = None"
    by (simp add: dict_contains_def map_of_eq_None_iff)
  with False show ?thesis
    by (auto simp: dict_set_def fun_eq_iff map_add_def split: option.splits)
qed

lemma length_dict_set:
  "length (dict_set d k v) = (if dict_contains d k then length d else Suc (length d))"
  by (simp add: dict_set_def)

lemma distinct_dict_set:
  "distinct (map fst d) \<Longrightarrow> distinct (map fst (dict_set d k v))"
  by (simp add: keys_dict_set)

lemma keys_of_assignments:
  "map fst (foldl (\<lambda>d kv. dict_set d (fst kv) (snd kv)) [] kvs) = rev (remdups (rev (map fst kvs)))"
  by (induction kvs rule: rev_induct) (auto simp: keys_dict_set)

lemma map_of_assignments:
  "map_of (foldl (\<lambda>d kv. dict_set d (fst kv) (snd kv)) [] kvs) = map_of (rev kvs)"
  by (induction kvs rule: rev_induct) (auto simp: map_of_dict_set fun_eq_iff)

lemma join_two: "join sep [a, b] = a @ sep @ b"
  by simp

lemma facts_to_str_eq:
  "facts_to_str ud = newline @ join newline (map (\<lambda>(key, val). key @ '' - '' @ val) ud) @ newline"
  by (simp add: facts_to_str_def Let_def)

lemma received_information_stores:
  assumes "dict_get (user_data s) ''choice'' = Some ch" and "ch \<noteq> []"
  shows "received_information (Message t c) s =
           (let ud = filter (\<lambda>(k, v). k \<noteq> ''choice'') (dict_set (user_data s) ch t)
            in (Inr CHOOSING,
                s\<lparr>user_data := ud,
                  sent := sent s @
                    [(''Neat! Just so you know, this is what you already told me:''
                        @ facts_to_str ud
                        @ ''You can tell me more, or change your opinion on something.'',
                      Some (ReplyKeyboardMarkup reply_keyboard))]\<rparr>))"
proof -
  from assms(1) have "''choice'' \<in> set (map fst (user_data s))"
    by (auto simp: dict_get_def dest: map_of_SomeD intro: rev_image_eqI)
  then have "dict_contains (dict_set (user_data s) ch t) ''choice''"
    by (simp add: dict_contains_def keys_dict_set)
  with assms show ?thesis
    by (cases ch) (simp_all add: received_information_def dict_del_def Let_def)
qed

text \<open>
  Claim C4. The summary is a line break, the entries of the dictionary in their order,
  each rendered as key, \<open>" - "\<close> and value and separated by line breaks, and a line
  break. After any sequence of assignments the keys stand in the order in which they
  were first assigned, each once, with the value assigned last; assigning to a key that
  is present changes neither the keys nor their number. \<open>received_information\<close>
  assigns the text to the pending field, drops the \<open>choice\<close> entry and sends the
  summary of the dictionary it leaves.
\<close>

theorem facts_to_str_summary:
  "facts_to_str ud =
     newline @ join newline (map (\<lambda>(key, val). key @ '' - '' @ val) ud) @ newline \<and>
   map fst (foldl (\<lambda>d kv. dict_set d (fst kv) (snd kv)) [] kvs) =
     rev (remdups (rev (map fst kvs))) \<and>
   map_of (foldl (\<lambda>d kv. dict_set d (fst kv) (snd kv)) [] kvs) = map_of (rev kvs) \<and>
   (dict_contains d k \<longrightarrow>
      map fst (dict_set d k v) = map fst d \<and> length (dict_set d k v) = length d \<and>
      dict_get (dict_set d k v) k = Some v) \<and>
   (\<not> dict_contains d' k' \<longrightarrow> dict_set d' k' v' = d' @ [(k', v')]) \<and>
   (dict_get (user_data s) ''choice'' = Some ch \<and> ch \<noteq> [] \<longrightarrow>
      received_information (Message t c) s =
        (Inr CHOOSING,
         s\<lparr>user_data := filter (\<lambda>(k, v). k \<noteq> ''choice'') (dict_set (user_data s) ch t),
           sent := sent s @
             [(''Neat! Just so you know, this is what you already told me:''
                 @ facts_to_str
                     (filter (\<lambda>(k, v). k \<noteq> ''choice'') (dict_set (user_data s) ch t))
                 @ ''You can tell me more, or change your opinion on something.'',
               Some (ReplyKeyboardMarkup reply_keyboard))]\<rparr>))"
proof (intro conjI impI)
  assume "dict_get (user_data s) ''choice'' = Some ch \<and> ch \<noteq> []"
  then show "received_information (Message t c) s =
        (Inr CHOOSING,
         s\<lparr>user_data := filter (\<lambda>(k, v). k \<noteq> ''choice'') (dict_set (user_data s) ch t),
           sent := sent s @
             [(''Neat! Just so you know, this is what you already told me:''
                 @ facts_to_str
                     (filter (\<lambda>(k, v). k \<noteq> ''choice'') (dict_set (user_data s) ch t))
                 @ ''You can tell me more, or change your opinion on something.'',
               Some (ReplyKeyboardMarkup reply_keyboard))]\<rparr>)"
    using received_information_stores [of s ch t c] by (simp add: Let_def)
next
  show "facts_to_str ud =
     newline @ join newline (map (\<lambda>(key, val). key @ '' - '' @ val) ud) @ newline"
    by (rule facts_to_str_eq)
  show "map fst (foldl (\<lambda>d kv. dict_set d (fst kv) (snd kv)) [] kvs) =
     rev (remdups (rev (map fst kvs)))"
    by (rule keys_of_assignments)
  show "map_of (foldl (\<lambda>d kv. dict_set d (fst kv) (snd kv)) [] kvs) = map_of (rev kvs)"
    by (rule map_of_assignments)
next
  assume "dict_contains d k"
  then show "map fst (dict_set d k v) = map fst d"
    by (simp add: keys_dict_set dict_contains_def)
next
  assume "dict_contains d k"
  then show "length (dict_set d k v) = length d"
    by (simp add: length_dict_set)
next
  show "dict_get (dict_set d k v) k = Some v"
    by (simp add: dict_get_def map_of_dict_set)
next
  assume "\<not> dict_contains d' k'"
  then show "dict_set d' k' v' = d' @ [(k', v')]"
    by (simp add: dict_set_def)
qed

theorem facts_to_str_summary_witness:
  "facts_to_str [(''Notes'', ''gas''), (''Apt'', ''103'')] =
     [CHR 0x0A] @ ''Notes - gas'' @ [CHR 0x0A] @ ''Apt - 103'' @ [CHR 0x0A] \<and>
   map fst (foldl (\<lambda>d kv. dict_set d (fst kv) (snd kv)) []
              [(''Notes'', ''gas''), (''Apt'', ''103''), (''Notes'', ''fuel'')]) =
     [''Notes'', ''Apt''] \<and>
   dict_set [(''Notes'', ''gas''), (''Apt'', ''103'')] ''Notes'' ''fuel'' =
     [(''Notes'', ''fuel''), (''Apt'', ''103'')] \<and>
   dict_set [(''Notes'', ''gas'')] ''Apt'' ''103'' = [(''Notes'', ''gas''), (''Apt'', ''103'')] \<and>
   received_information (Message ''fuel'' False)
     \<lparr>user_data = [(''Notes'', ''gas''), (''Apt'', ''103''), (''choice'', ''Notes'')],
      sent = [], posts = []\<rparr> =
   (Inr CHOOSING,
    \<lparr>user_data = [(''Notes'', ''fuel''), (''Apt'', ''103'')],
     sent = [(''Neat! Just so you know, this is what you already told me:''
                @ [CHR 0x0A] @ ''Notes - fuel'' @ [CHR 0x0A] @ ''Apt - 103'' @ [CHR 0x0A]
                @ ''You can tell me more, or change your opinion on something.'',
              Some (ReplyKeyboardMarkup reply_keyboard))],
     posts = []\<rparr>)"
proof -
  let ?s = "\<lparr>user_data = [(''Notes'', ''gas''), (''Apt'', ''103''), (''choice'', ''Notes'')],
              sent = [], posts = []\<rparr>"
  have e: "dict_get (user_data ?s) ''choice'' = Some ''Notes''"
    by (simp add: dict_get_def)
  have f: "filter (\<lambda>(k, v). k \<noteq> ''choice'') (dict_set (user_data ?s) ''Notes'' ''fuel'') =
             [(''Notes'', ''fuel''), (''Apt'', ''103'')]"
    by (simp add: dict_set_def dict_contains_def)
  have g: "facts_to_str [(''Notes'', ''fuel''), (''Apt'', ''103'')] =
             [CHR 0x0A] @ ''Notes - fuel'' @ [CHR 0x0A] @ ''Apt - 103'' @ [CHR 0x0A]"
    by (simp add: facts_to_str_def newline_def)
  have a: "dict_contains [(''Notes'', ''gas''), (''Apt'', ''103'')] ''Notes''"
    by (simp add: dict_contains_def)
  have b: "\<not> dict_contains [(''Notes'', ''gas'')] ''Apt''"
    by (simp add: dict_contains_def)
  have c: "dict_set [(''Notes'', ''gas''), (''Apt'', ''103'')] ''Notes'' ''fuel'' =
     [(''Notes'', ''fuel''), (''Apt'', ''103'')]"
    by (simp add: dict_set_def dict_contains_def)
  from facts_to_str_summary
         [where ud = "[(''Notes'', ''gas''), (''Apt'', ''103'')]"
            and kvs = "[(''Notes'', ''gas''), (''Apt'', ''103''), (''Notes'', ''fuel'')]"
            and d = "[(''Notes'', ''gas''), (''Apt'', ''103'')]" and k = "''Notes''"
            and v = "''fuel''" and d' = "[(''Notes'', ''gas'')]" and k' = "''Apt''"
            and v' = "''103''" and s = "?s" and ch = "''Notes''" and t = "''fuel''"
            and c = False]
       a b c e
  have "facts_to_str [(''Notes'', ''gas''), (''Apt'', ''103'')] =
          [CHR 0x0A] @ ''Notes - gas'' @ [CHR 0x0A] @ ''Apt - 103'' @ [CHR 0x0A]"
    and "map fst (foldl (\<lambda>d kv. dict_set d (fst kv) (snd kv)) []
              [(''Notes'', ''gas''), (''Apt'', ''103''), (''Notes'', ''fuel'')]) =
          [''Notes'', ''Apt'']"
    and "dict_set [(''Notes'', ''gas'')] ''Apt'' ''103'' =
          [(''Notes'', ''gas''), (''Apt'', ''103'')]"
    and "received_information (Message ''fuel'' False) ?s =
          (Inr CHOOSING,
           ?s\<lparr>user_data := filter (\<lambda>(k, v). k \<noteq> ''choice'')
                                 (dict_set (user_data ?s) ''Notes'' ''fuel''),
             sent := sent ?s @
               [(''Neat! Just so you know, this is what you already told me:''
                   @ facts_to_str
                       (filter (\<lambda>(k, v). k \<noteq> ''choice'')
                          (dict_set (user_data ?s) ''Notes'' ''fuel''))
                   @ ''You can tell me more, or change your opinion on something.'',
                 Some (ReplyKeyboardMarkup reply_keyboard))]\<rparr>)"
    by (simp_all add: newline_def)
  with c f g show ?thesis
    by simp
qed

text \<open>
  Claim C9. When a text arrives for \<open>received_information\<close> and the dictionary has no
  \<open>choice\<close> entry, the handler sends the "try again" message, leaves the dictionary
  as it was and returns \<open>CHOOSING\<close>.
\<close>

theorem received_information_without_choice:
  assumes "dict_get (user_data s) ''choice'' = None"
  shows "received_information (Message t c) s =
           (Inr CHOOSING,
            s\<lparr>sent := sent s @
                 [(''I didn't receive the category. Please try again.'',
                   Some (ReplyKeyboardMarkup reply_keyboard))]\<rparr>) \<and>
         user_data (snd (received_information (Message t c) s)) = user_data s"
  using assms by (simp add: received_information_def)

theorem received_information_without_choice_witness:
  "received_information (Message ''Groceries'' False)
     \<lparr>user_data = [(''Notes'', ''gas'')], sent = [], posts = []\<rparr> =
   (Inr CHOOSING,
    \<lparr>user_data = [(''Notes'', ''gas'')],
     sent = [(''I didn't receive the category. Please try again.'',
              Some (ReplyKeyboardMarkup reply_keyboard))],
     posts = []\<rparr>)"
proof -
  have "dict_get (user_data \<lparr>user_data = [(''Notes'', ''gas'')], sent = [], posts = []\<rparr>)
          ''choice'' = None"
    by (simp add: dict_get_def)
  from received_information_without_choice [OF this, of "''Groceries''" False]
  show ?thesis by simp
qed

text \<open>
  Claim C2, as the code has it. The handler of \<open>Done\<close> is a fallback of the
  conversation, and no handler of any state accepts the text \<open>Done\<close>: in every state
  of a conversation the text \<open>Done\<close> is given to \<open>done\<close>. Outside a conversation it is
  given to no handler.
\<close>

theorem done_selected_in_every_state:
  "select_handler (Some st) (Message ''Done'' c) = Some Done \<and>
   select_handler None (Message ''Done'' c) = None"
  by (cases st) (simp_all add: regex_whole_def newline_def command_name_def lower_def)

theorem done_selected_in_every_state_witness:
  "select_handler (Some CHOOSING) (Message ''Done'' False) = Some Done \<and>
   select_handler None (Message ''Done'' False) = None"
  using done_selected_in_every_state [of CHOOSING False] by simp

text \<open>
  The claim as stated fails: while a free text, an expense type or an apartment is
  awaited, the text \<open>Done\<close> is given to \<open>done\<close> all the same.
\<close>

theorem done_selected_while_awaiting:
  "select_handler (Some TYPING_REPLY) (Message ''Done'' False) = Some Done \<and>
   select_handler (Some TYPING_CHOICE) (Message ''Done'' False) = Some Done \<and>
   select_handler (Some TYPING_APT) (Message ''Done'' False) = Some Done"
  by (simp add: regex_whole_def newline_def)

text \<open>
  Claim C6. \<open>update_airtable\<close> takes the first URL exactly for the code \<open>108\<close> and the
  second exactly for \<open>103\<close>; for any other code it raises
  \<open>ValueError("Invalid apt value")\<close> before anything is sent; for one of the two codes
  the POST goes to the URL of the code, and the fault is not raised.
\<close>

theorem update_airtable_endpoint:
  "(airtable_url apt = Inr url_108 \<longleftrightarrow> apt = ''108'') \<and>
   (airtable_url apt = Inr url_103 \<longleftrightarrow> apt = ''103'') \<and>
   (apt \<noteq> ''108'' \<and> apt \<noteq> ''103'' \<longrightarrow>
      update_airtable env name expense_type expense memo apt s =
        (Inl (ValueError ''Invalid apt value''), s)) \<and>
   ((apt' = ''108'' \<or> apt' = ''103'') \<and> \<not> is_snan expense' \<longrightarrow>
      (\<exists>url. airtable_url apt' = Inr url \<and>
         update_airtable env name expense_type expense' memo apt' s =
           (posted env url
              \<lparr>fld_Name = name, fld_Month = now_month env, fld_Category = expense_type,
               fld_Expense = expense', fld_Notes = memo, fld_Date = now_date env\<rparr>,
            s\<lparr>posts := posts s @
                 [(url, \<lparr>fld_Name = name, fld_Month = now_month env,
                         fld_Category = expense_type, fld_Expense = expense',
                         fld_Notes = memo, fld_Date = now_date env\<rparr>)]\<rparr>)))"
  by (auto simp: airtable_url_def update_airtable_def url_108_def url_103_def Let_def)

theorem update_airtable_endpoint_witness:
  "airtable_url ''108'' = Inr url_108 \<and> airtable_url ''103'' = Inr url_103 \<and>
   update_airtable
     \<lparr>fetched_rates = Inl RequestsError, posted = store_answers JNull,
      now_month = ''November'', now_date = ''2026-11-04''\<rparr>
     ''Groceries'' ''Water'' (Finite False 5 0) [] ''104''
     \<lparr>user_data = [], sent = [], posts = []\<rparr> =
   (Inl (ValueError ''Invalid apt value''), \<lparr>user_data = [], sent = [], posts = []\<rparr>) \<and>
   update_airtable
     \<lparr>fetched_rates = Inl RequestsError, posted = store_answers JNull,
      now_month = ''November'', now_date = ''2026-11-04''\<rparr>
     ''Groceries'' ''Water'' (Finite False 5 0) [] ''103''
     \<lparr>user_data = [], sent = [], posts = []\<rparr> =
   (Inr JNull,
    \<lparr>user_data = [], sent = [],
     posts = [(url_103,
               \<lparr>fld_Name = ''Groceries'', fld_Month = ''November'', fld_Category = ''Water'',
                fld_Expense = Finite False 5 0, fld_Notes = [],
                fld_Date = ''2026-11-04''\<rparr>)]\<rparr>)"
  using update_airtable_endpoint
          [where apt = "''108''" and apt' = "''103''" and expense' = "Finite False 5 0"
             and env = "\<lparr>fetched_rates = Inl RequestsError, posted = store_answers JNull,
                          now_month = ''November'', now_date = ''2026-11-04''\<rparr>"
             and name = "''Groceries''" and expense_type = "''Water''" and memo = "[]"
             and s = "\<lparr>user_data = [], sent = [], posts = []\<rparr>"]
        update_airtable_endpoint
          [where apt = "''104''" and apt' = "''103''" and expense = "Finite False 5 0"
             and env = "\<lparr>fetched_rates = Inl RequestsError, posted = store_answers JNull,
                          now_month = ''November'', now_date = ''2026-11-04''\<rparr>"
             and name = "''Groceries''" and expense_type = "''Water''" and memo = "[]"
             and s = "\<lparr>user_data = [], sent = [], posts = []\<rparr>"]
  by (auto simp: store_answers_def airtable_url_def)


section \<open>Properties of the completion\<close>

lemma choice_removed:
  "(if dict_contains d k then dict_del d k else Inr d) = Inr (filter (\<lambda>(k', v'). k' \<noteq> k) d)"
proof (cases "dict_contains d k")
  case True
  then show ?thesis by (simp add: dict_del_def)
next
  case False
  then have "filter (\<lambda>(k', v'). k' \<noteq> k) d = d"
    by (force simp: dict_contains_def filter_id_conv)
  with False show ?thesis by simp
qed

lemma fix_finite_cases:
  "(case fix_finite sign c e of Inl err \<Rightarrow> True | Inr x \<Rightarrow> \<not> is_snan x)"
  unfolding fix_finite_def Let_def
  by (simp only: if_distrib [of "case_sum (\<lambda>err. True) (\<lambda>x. \<not> is_snan x)"]
        sum.case is_snan.simps not_False_eq_True if_cancel)

lemma fix_finite_not_snan: "fix_finite sign c e = Inr x \<Longrightarrow> \<not> is_snan x"
  using fix_finite_cases [of sign c e] by simp

lemma mul_not_snan: "mul a b = Inr x \<Longrightarrow> \<not> is_snan x"
  by (cases a; cases b) (auto simp: mul_def dest: fix_finite_not_snan split: if_splits)

lemma convert_to_usd_not_snan: "convert_to_usd fetched a = Inr x \<Longrightarrow> \<not> is_snan x"
  by (auto simp: convert_to_usd_def dest: mul_not_snan split: sum.splits)

lemma done_handler_raises_in_conversion:
  assumes "convert_to_usd (fetched_rates env)
             (amount_of_text (dict_get_default ud ''Amount in GHS'' ''0'')) = Inl e"
      and "ud = filter (\<lambda>(k, v). k \<noteq> ''choice'') (user_data s)"
  shows "done_handler env u s = (Inl e, s\<lparr>user_data := ud\<rparr>)"
  using assms by (simp add: done_handler_def choice_removed Let_def)

lemma done_handler_submits:
  assumes "convert_to_usd (fetched_rates env)
             (amount_of_text (dict_get_default ud ''Amount in GHS'' ''0'')) = Inr usd"
      and "ud = filter (\<lambda>(k, v). k \<noteq> ''choice'') (user_data s)"
      and "airtable_url (dict_get_default ud ''Apt'' ''108'') = Inr url"
      and "data = \<lparr>fld_Name = dict_get_default ud ''Name of Expense'' ''Unknown'',
                    fld_Month = now_month env,
                    fld_Category = dict_get_default ud ''Expense Type'' ''Uncategorized'',
                    fld_Expense = usd,
                    fld_Notes = dict_get_default ud ''Notes'' '''',
                    fld_Date = now_date env\<rparr>"
      and "s2 = s\<lparr>user_data := ud, posts := posts s @ [(url, data)]\<rparr>"
  shows "done_handler env u s =
           (case posted env url data of
              Inl e \<Rightarrow> (Inl e, s2)
            | Inr response \<Rightarrow>
                (case records_created response of
                   Inl e \<Rightarrow> (Inl e, s2)
                 | Inr ok \<Rightarrow>
                     (case reply_text u
                             (if ok then ''Successfully updated Airtable!''
                              else ''Failed to update Airtable. Please try again later.'')
                             None s2 of
                        Inl e \<Rightarrow> (Inl e, s2)
                      | Inr s3 \<Rightarrow> (Inr END, s3\<lparr>user_data := []\<rparr>))))"
  using assms convert_to_usd_not_snan [OF assms(1)]
  by (simp add: done_handler_def choice_removed Let_def update_airtable_def split: sum.splits)

lemmas parse_defs =
  amount_of_text_def Decimal_of_str_def strip_def is_space_def parse_special_def lower_def
  lower_char_def parse_number_def is_digit_def nat_of_digits_def digit_val_def
  finite_exact_def ndigits.simps unsigned_digits_def Decimal_of_int_def Let_def

lemmas mul_defs =
  mul_def fix_finite_def lowest_terms.simps ndigits.simps prec_def Etop_def Etiny_def
  Emax_def Emin_def Let_def


lemma amount_of_text_100: "amount_of_text ''100'' = Finite False 100 0"
  by (simp add: parse_defs)

lemma amount_of_text_0: "amount_of_text ''0'' = Finite False 0 0"
  by (simp add: parse_defs)


lemma convert_rate_2_zero:
  "convert_to_usd (Inr (JObj [(''rates'', JObj [(''USD'', JInt 2)])])) (Finite False 0 0) =
     Inr (Finite False 0 0)"
  by (simp add: convert_to_usd_def get_exchange_rate_def dict_get_default_def
        Decimal_of_int_def mul_defs)




section \<open>The converted amount\<close>

lemma ndigits_small: "n < 10 \<Longrightarrow> ndigits n = 1"
  by (simp add: ndigits.simps)

lemma ndigits_between:
  "10 ^ k \<le> n \<Longrightarrow> n < 10 ^ Suc k \<Longrightarrow> ndigits n = Suc k"
proof (induction k arbitrary: n)
  case 0
  then show ?case by (simp add: ndigits.simps)
next
  case (Suc k)
  have "(10::nat) ^ 1 \<le> 10 ^ Suc k" by (rule power_increasing) simp_all
  also have "\<dots> \<le> n" by (rule Suc.prems)
  finally have "10 \<le> n" by simp
  then have unfold: "ndigits n = Suc (ndigits (n div 10))"
    by (subst ndigits.simps) simp
  from Suc.prems have "10 * 10 ^ k \<le> n" by simp
  then have "(10 * 10 ^ k) div 10 \<le> n div 10" by (rule div_le_mono)
  then have lo: "10 ^ k \<le> n div 10" by simp
  from Suc.prems have "n < 10 ^ Suc k * 10" by (simp add: mult.commute)
  then have hi: "n div 10 < 10 ^ Suc k" by (rule less_mult_imp_div_less)
  from lo hi have "ndigits (n div 10) = Suc k" by (rule Suc.IH)
  with unfold show ?case by simp
qed

lemma convert_float_rate:
  "convert_to_usd (Inr (JObj [(''rates'', JObj [(''USD'', JFloat f)])])) a =
     mul a (Decimal_of_float f)"
  by (simp add: convert_to_usd_def get_exchange_rate_def dict_get_default_def)

lemma dec_of_double_0083:
  "Decimal_of_float (Flt False 5980780305148019 (- 56)) =
     Finite False 8300000000000000432986979603811050765216350555419921875 (- 56)"
  by (simp add: lowest_terms.simps)

lemma ndigits_product:
  "ndigits 830000000000000043298697960381105076521635055541992187500 = 57"
  using ndigits_between [of 56 830000000000000043298697960381105076521635055541992187500]
  by simp

lemma ndigits_rounded: "ndigits 8300000000000000432986979604 = 28"
  using ndigits_between [of 27 8300000000000000432986979604] by simp

lemma fix_product:
  "fix_finite False 830000000000000043298697960381105076521635055541992187500 (- 56) =
     Inr (Finite False 8300000000000000432986979604 (- 27))"
  by (simp add: fix_finite_def prec_def Etop_def Etiny_def Emax_def Emin_def Let_def
        ndigits_product ndigits_rounded)

lemma hundred_times_double_0083:
  "convert_to_usd
     (Inr (JObj [(''rates'', JObj [(''USD'', JFloat (Flt False 5980780305148019 (- 56)))])]))
     (Finite False 100 0) =
   Inr (Finite False 8300000000000000432986979604 (- 27))"
  unfolding convert_float_rate dec_of_double_0083
  by (simp add: mul_def fix_product)

lemma mantissa_0083:
  fixes m :: int
  assumes "2 * \<bar>5980780305148018688 - m * 1000\<bar> \<le> 1000"
  shows "m = 5980780305148019"
proof -
  from assms have "\<bar>5980780305148018688 - m * 1000\<bar> \<le> 500" by simp
  then have a: "5980780305148018688 - m * 1000 \<le> 500" and b: "- (5980780305148018688 - m * 1000) \<le> 500"
    by (simp_all add: abs_le_iff)
  have "5980780305148018 < m"
  proof (rule ccontr)
    assume "\<not> 5980780305148018 < m"
    then have "m \<le> 5980780305148018" by simp
    then have "m * 1000 \<le> 5980780305148018 * 1000" by (rule mult_right_mono) simp
    with a show False by simp
  qed
  moreover have "m < 5980780305148020"
  proof (rule ccontr)
    assume "\<not> m < 5980780305148020"
    then have "5980780305148020 \<le> m" by simp
    then have "5980780305148020 * 1000 \<le> m * 1000" by (rule mult_right_mono) simp
    with b show False by simp
  qed
  ultimately show ?thesis by simp
qed

lemma exponent_0083:
  fixes m :: int and k :: nat
  assumes near: "2 * \<bar>83 * 2 ^ k - m * 1000\<bar> \<le> 1000"
      and lo: "4503599627370496 \<le> m" and hi: "m < 9007199254740992"
  shows "k = 56"
proof -
  from near have "\<bar>83 * 2 ^ k - m * 1000\<bar> \<le> 500" by simp
  then have a: "83 * 2 ^ k - m * 1000 \<le> 500" and b: "- (83 * 2 ^ k - m * 1000) \<le> 500"
    by (simp_all add: abs_le_iff)
  from lo have lo': "4503599627370496 * 1000 \<le> m * 1000" by (rule mult_right_mono) simp
  from hi have "m \<le> 9007199254740991" by simp
  then have hi': "m * 1000 \<le> 9007199254740991 * 1000" by (rule mult_right_mono) simp
  show ?thesis
  proof (rule ccontr)
    assume "k \<noteq> 56"
    then consider "k \<le> 55" | "57 \<le> k" by linarith
    then show False
    proof cases
      case 1
      then have "(2::int) ^ k \<le> 2 ^ 55" by (intro power_increasing) simp_all
      then have "83 * (2::int) ^ k \<le> 83 * 36028797018963968" by simp
      with b lo' show False by simp
    next
      case 2
      then have "(2::int) ^ 57 \<le> 2 ^ k" by (intro power_increasing) simp_all
      then have "83 * (144115188075855872::int) \<le> 83 * 2 ^ k" by simp
      with a hi' show False by simp
    qed
  qed
qed

lemma nearest_double_0083_unique:
  assumes "nearest_double 83 1000 f"
  shows "f = Flt False 5980780305148019 (- 56)"
proof -
  from assms obtain sign m e where f: "f = Flt sign m e"
    by (cases f) simp_all
  define k where "k = nat (- e)"
  from assms f have sign: "\<not> sign" and lo: "2 ^ 52 \<le> m" and hi: "m < 2 ^ 53" and e: "e < 0"
    and near: "2 * \<bar>83 * 2 ^ k - int m * 1000\<bar> \<le> 1000"
    by (simp_all add: k_def)
  have lo': "(4503599627370496::int) \<le> int m" using lo by simp
  have hi': "int m < (9007199254740992::int)" using hi by simp
  from near lo' hi' have k56: "k = 56" by (rule exponent_0083)
  with near have "2 * \<bar>(5980780305148018688::int) - int m * 1000\<bar> \<le> 1000" by simp
  then have "int m = 5980780305148019" by (rule mantissa_0083)
  then have m: "m = 5980780305148019" by simp
  from k56 e have "e = - 56" by (simp add: k_def)
  with f sign m show ?thesis by simp
qed

text \<open>
  Claim C3, as the code has it. The rate of the payload \<open>{"rates": {"USD": 0.083}}\<close>
  is a float, the binary64 number nearest to 0.083, and \<open>Decimal\<close> takes its exact
  value: for the amount text \<open>100\<close> the product, rounded to 28 digits, is
  8.300000000000000432986979604.
\<close>

theorem usd_amount_for_float_rate:
  "nearest_double 83 1000 f \<longrightarrow>
     convert_to_usd (Inr (JObj [(''rates'', JObj [(''USD'', JFloat f)])]))
       (amount_of_text ''100'') =
     Inr (Finite False 8300000000000000432986979604 (- 27))"
  by (auto dest!: nearest_double_0083_unique
        simp: amount_of_text_100 hundred_times_double_0083)

theorem usd_amount_for_float_rate_witness:
  "nearest_double 83 1000 (Flt False 5980780305148019 (- 56)) \<and>
   convert_to_usd
     (Inr (JObj [(''rates'', JObj [(''USD'', JFloat (Flt False 5980780305148019 (- 56)))])]))
     (amount_of_text ''100'') =
   Inr (Finite False 8300000000000000432986979604 (- 27))"
proof -
  have n: "nearest_double 83 1000 (Flt False 5980780305148019 (- 56))"
    by simp
  with usd_amount_for_float_rate [of "Flt False 5980780305148019 (- 56)"]
  show ?thesis by blast
qed

text \<open>
  The claim as stated fails: the amount computed for that payload and the text \<open>100\<close>
  is not equal to the decimal 8.3.
\<close>

theorem usd_amount_is_not_8_3:
  "nearest_double 83 1000 (Flt False 5980780305148019 (- 56)) \<and>
   convert_to_usd
     (Inr (JObj [(''rates'', JObj [(''USD'', JFloat (Flt False 5980780305148019 (- 56)))])]))
     (Finite False 100 0) =
   Inr (Finite False 8300000000000000432986979604 (- 27)) \<and>
   \<not> dec_eq (Finite False 8300000000000000432986979604 (- 27)) (Finite False 83 (- 1))"
  by (simp add: hundred_times_double_0083)

section \<open>The defaults of the completion\<close>

lemma dict_get_default_case:
  "dict_get_default d k dflt = (case dict_get d k of None \<Rightarrow> dflt | Some v \<Rightarrow> v)"
  by (simp add: dict_get_default_def dict_get_def)

lemma done_handler_posts:
  assumes "convert_to_usd (fetched_rates env)
             (amount_of_text (dict_get_default ud ''Amount in GHS'' ''0'')) = Inr usd"
      and "ud = filter (\<lambda>(k, v). k \<noteq> ''choice'') (user_data s)"
      and "airtable_url (dict_get_default ud ''Apt'' ''108'') = Inr url"
  shows "posts (snd (done_handler env u s)) =
           posts s @
             [(url, \<lparr>fld_Name = dict_get_default ud ''Name of Expense'' ''Unknown'',
                     fld_Month = now_month env,
                     fld_Category = dict_get_default ud ''Expense Type'' ''Uncategorized'',
                     fld_Expense = usd,
                     fld_Notes = dict_get_default ud ''Notes'' '''',
                     fld_Date = now_date env\<rparr>)]"
  unfolding done_handler_submits [OF assms refl refl]
  by (cases u) (simp_all split: sum.splits)

text \<open>
  Claim C5. \<open>done\<close> takes each field from the dictionary and, where the key is
  missing, the fixed default: \<open>Unknown\<close> for the name, \<open>Uncategorized\<close> for the
  expense type, \<open>0\<close> for the amount text, the empty text for the notes and \<open>108\<close>
  for the apartment. With no \<open>Apt\<close> entry the record is posted to the URL of \<open>108\<close>.
\<close>

theorem done_handler_defaults:
  assumes "ud = filter (\<lambda>(k, v). k \<noteq> ''choice'') (user_data s)"
      and "convert_to_usd (fetched_rates env)
             (amount_of_text
                (case dict_get ud ''Amount in GHS'' of None \<Rightarrow> ''0'' | Some a \<Rightarrow> a)) = Inr usd"
      and "airtable_url (case dict_get ud ''Apt'' of None \<Rightarrow> ''108'' | Some a \<Rightarrow> a) = Inr url"
  shows "posts (snd (done_handler env u s)) =
           posts s @
             [(url,
               \<lparr>fld_Name =
                  (case dict_get ud ''Name of Expense'' of None \<Rightarrow> ''Unknown'' | Some n \<Rightarrow> n),
                fld_Month = now_month env,
                fld_Category =
                  (case dict_get ud ''Expense Type'' of None \<Rightarrow> ''Uncategorized'' | Some x \<Rightarrow> x),
                fld_Expense = usd,
                fld_Notes = (case dict_get ud ''Notes'' of None \<Rightarrow> [] | Some n \<Rightarrow> n),
                fld_Date = now_date env\<rparr>)] \<and>
         (dict_get ud ''Apt'' = None \<longrightarrow> url = url_108)"
proof
  from assms show "posts (snd (done_handler env u s)) =
           posts s @
             [(url,
               \<lparr>fld_Name =
                  (case dict_get ud ''Name of Expense'' of None \<Rightarrow> ''Unknown'' | Some n \<Rightarrow> n),
                fld_Month = now_month env,
                fld_Category =
                  (case dict_get ud ''Expense Type'' of None \<Rightarrow> ''Uncategorized'' | Some x \<Rightarrow> x),
                fld_Expense = usd,
                fld_Notes = (case dict_get ud ''Notes'' of None \<Rightarrow> [] | Some n \<Rightarrow> n),
                fld_Date = now_date env\<rparr>)]"
    using done_handler_posts [of env ud usd s url u]
    by (simp add: dict_get_default_case)
  from assms(3) show "dict_get ud ''Apt'' = None \<longrightarrow> url = url_108"
    by (auto simp: airtable_url_def)
qed

theorem done_handler_defaults_witness:
  "posts (snd (done_handler
     \<lparr>fetched_rates = Inr (JObj [(''rates'', JObj [(''USD'', JInt 2)])]),
      posted = store_answers JNull,
      now_month = ''November'', now_date = ''2026-11-04''\<rparr>
     (Message ''Done'' False)
     \<lparr>user_data = [], sent = [], posts = []\<rparr>)) =
   [(url_108,
     \<lparr>fld_Name = ''Unknown'', fld_Month = ''November'', fld_Category = ''Uncategorized'',
      fld_Expense = Finite False 0 0, fld_Notes = [], fld_Date = ''2026-11-04''\<rparr>)]"
proof -
  let ?env = "\<lparr>fetched_rates = Inr (JObj [(''rates'', JObj [(''USD'', JInt 2)])]),
                posted = store_answers JNull,
                now_month = ''November'', now_date = ''2026-11-04''\<rparr>"
  let ?s = "\<lparr>user_data = [], sent = [], posts = []\<rparr>"
  have a: "[] = filter (\<lambda>(k, v). k \<noteq> ''choice'') (user_data ?s)"
    by simp
  have b: "convert_to_usd (fetched_rates ?env)
             (amount_of_text
                (case dict_get [] ''Amount in GHS'' of None \<Rightarrow> ''0'' | Some a \<Rightarrow> a)) =
           Inr (Finite False 0 0)"
    by (simp add: dict_get_def amount_of_text_0 convert_rate_2_zero)
  have c: "airtable_url (case dict_get [] ''Apt'' of None \<Rightarrow> ''108'' | Some a \<Rightarrow> a) =
           Inr url_108"
    by (simp add: dict_get_def airtable_url_def)
  from done_handler_defaults [OF a b c, of "Message ''Done'' False"]
  show ?thesis by (simp add: dict_get_def)
qed

section \<open>Parsing the amount\<close>

lemma digit_facts:
  assumes "is_digit c"
  shows "\<not> is_space c" "c \<noteq> CHR ''_''" "c \<noteq> CHR ''-''" "c \<noteq> CHR ''+''" "c \<noteq> CHR ''.''"
    "lower_char c = c" "c \<noteq> CHR ''i''" "c \<noteq> CHR ''n''" "c \<noteq> CHR ''s''"
    "digit_val c \<le> 9"
  using assms by (auto simp: is_digit_def is_space_def lower_char_def digit_val_def)

lemma point_facts:
  "\<not> is_space CHR ''.''" "\<not> is_digit CHR ''.''" "lower_char CHR ''.'' = CHR ''.''"
  by (simp_all add: is_space_def is_digit_def lower_char_def)

lemma strip_id:
  assumes "t \<noteq> []" and "\<not> is_space (hd t)" and "\<not> is_space (last t)"
  shows "strip t = t"
proof -
  from assms(1,2) have "dropWhile is_space t = t"
    by (cases t) simp_all
  moreover from assms(1,3) have "dropWhile is_space (rev t) = rev t"
    by (cases "rev t") (simp_all add: last_rev [symmetric] hd_rev)
  ultimately show ?thesis by (simp add: strip_def)
qed

lemma nat_of_digits_snoc:
  "nat_of_digits (ds @ [d]) = 10 * nat_of_digits ds + digit_val d"
  by (simp add: nat_of_digits_def)

lemma nat_of_digits_less:
  "list_all is_digit ds \<Longrightarrow> nat_of_digits ds < 10 ^ length ds"
proof (induction ds rule: rev_induct)
  case Nil
  then show ?case by (simp add: nat_of_digits_def)
next
  case (snoc d ds)
  then have "nat_of_digits ds < 10 ^ length ds" and "digit_val d \<le> 9"
    by (simp_all add: digit_facts)
  then show ?case by (simp add: nat_of_digits_snoc)
qed

lemma ndigits_le:
  "n < 10 ^ Suc k \<Longrightarrow> ndigits n \<le> Suc k"
proof (induction k arbitrary: n)
  case 0
  then show ?case by (simp add: ndigits.simps)
next
  case (Suc k)
  show ?case
  proof (cases "n < 10")
    case True
    then show ?thesis by (simp add: ndigits.simps)
  next
    case False
    then have unfold: "ndigits n = Suc (ndigits (n div 10))"
      by (subst ndigits.simps) simp
    from Suc.prems have "n < 10 ^ Suc k * 10" by (simp add: mult.commute)
    then have "n div 10 < 10 ^ Suc k" by (rule less_mult_imp_div_less)
    then have "ndigits (n div 10) \<le> Suc k" by (rule Suc.IH)
    with unfold show ?thesis by simp
  qed
qed

lemma ndigits_of_digits:
  assumes "list_all is_digit ds"
  shows "ndigits (nat_of_digits ds) \<le> Suc (length ds)"
proof -
  from assms have "nat_of_digits ds < 10 ^ length ds" by (rule nat_of_digits_less)
  also have "\<dots> \<le> 10 ^ Suc (length ds)" by simp
  finally show ?thesis by (rule ndigits_le)
qed

lemma finite_exact_digits:
  assumes "list_all is_digit ds" and "length ds \<le> 4096" and "k \<le> length ds"
  shows "finite_exact sign (nat_of_digits ds) (- int k) =
           Some (Finite sign (nat_of_digits ds) (- int k))"
proof -
  from assms(1) have "ndigits (nat_of_digits ds) \<le> Suc (length ds)"
    by (rule ndigits_of_digits)
  with assms(2,3) show ?thesis by (simp add: finite_exact_def)
qed

lemma parse_special_numeral:
  assumes "t \<noteq> []" and "is_digit (hd t) \<or> hd t = CHR ''.''"
  shows "parse_special sign t = None"
proof -
  from assms(1) obtain c cs where t: "t = c # cs" by (cases t) auto
  with assms(2) have c: "lower_char c = c" "c \<noteq> CHR ''i''" "c \<noteq> CHR ''n''" "c \<noteq> CHR ''s''"
    by (auto simp: digit_facts point_facts is_digit_def)
  with t show ?thesis
    by (simp add: parse_special_def lower_def Let_def)
qed

lemma Decimal_of_str_numeral:
  assumes "t \<noteq> []" and "is_digit (hd t) \<or> hd t = CHR ''.''"
      and "is_digit (last t) \<or> last t = CHR ''.''"
      and "list_all (\<lambda>c. is_digit c \<or> c = CHR ''.'') t"
  shows "Decimal_of_str t = parse_number False t"
proof -
  from assms(1-3) have "strip t = t"
    by (intro strip_id) (auto simp: digit_facts point_facts)
  moreover from assms(4) have "filter (\<lambda>c. c \<noteq> CHR ''_'') t = t"
    by (auto simp: filter_id_conv list_all_iff is_digit_def)
  moreover from assms(2) have "hd t \<noteq> CHR ''-''" "hd t \<noteq> CHR ''+''"
    by (auto simp: digit_facts)
  ultimately show ?thesis
    using assms(1,2) by (simp add: Decimal_of_str_def Let_def parse_special_numeral)
qed

lemma takeWhile_digits_point:
  assumes "list_all is_digit ip"
  shows "takeWhile is_digit (ip @ CHR ''.'' # fp) = ip"
    and "dropWhile is_digit (ip @ CHR ''.'' # fp) = CHR ''.'' # fp"
  using assms by (induction ip) (simp_all add: point_facts)

lemma takeWhile_digits_all:
  assumes "list_all is_digit ds"
  shows "takeWhile is_digit ds = ds" and "dropWhile is_digit ds = []"
  using assms by (induction ds) simp_all

lemma Decimal_of_str_pointed:
  assumes ip: "list_all is_digit ip" and fp: "list_all is_digit fp"
      and ne: "ip \<noteq> [] \<or> fp \<noteq> []" and len: "length ip + length fp \<le> 4096"
  shows "Decimal_of_str (ip @ ''.'' @ fp) =
           Some (Finite False (nat_of_digits (ip @ fp)) (- int (length fp)))"
proof -
  let ?t = "ip @ ''.'' @ fp"
  have hd: "is_digit (hd ?t) \<or> hd ?t = CHR ''.''"
    using ip by (cases ip) simp_all
  have last: "is_digit (last ?t) \<or> last ?t = CHR ''.''"
    using fp by (cases fp rule: rev_cases) simp_all
  have all: "list_all (\<lambda>c. is_digit c \<or> c = CHR ''.'') ?t"
    using ip fp by (auto simp: list_all_iff)
  have "Decimal_of_str ?t = parse_number False ?t"
    using hd last all by (intro Decimal_of_str_numeral) simp_all
  also have "\<dots> = finite_exact False (nat_of_digits (ip @ fp)) (- int (length fp))"
    using ne by (auto simp: parse_number_def Let_def takeWhile_digits_point [OF ip]
        takeWhile_digits_all [OF fp])
  also have "\<dots> = Some (Finite False (nat_of_digits (ip @ fp)) (- int (length fp)))"
    using ip fp len by (intro finite_exact_digits) simp_all
  finally show ?thesis .
qed

lemma Decimal_of_str_digits:
  assumes ds: "list_all is_digit ds" and ne: "ds \<noteq> []" and len: "length ds \<le> 4096"
  shows "Decimal_of_str ds = Some (Finite False (nat_of_digits ds) 0)"
proof -
  have hd: "is_digit (hd ds)" using ds ne by (cases ds) simp_all
  have last: "is_digit (last ds)" using ds ne by (cases ds rule: rev_cases) simp_all
  have all: "list_all (\<lambda>c. is_digit c \<or> c = CHR ''.'') ds"
    using ds by (auto simp: list_all_iff)
  have "Decimal_of_str ds = parse_number False ds"
    using ne hd last all by (intro Decimal_of_str_numeral) simp_all
  also have "\<dots> = finite_exact False (nat_of_digits ds) (- int 0)"
    using ne by (simp add: parse_number_def Let_def takeWhile_digits_all [OF ds])
  also have "\<dots> = Some (Finite False (nat_of_digits ds) (- int 0))"
    using ds len by (intro finite_exact_digits) simp_all
  finally show ?thesis by simp
qed

lemma amount_of_text_12_50: "amount_of_text ''12.50'' = Finite False 1250 (- 2)"
  by (simp add: parse_defs)

lemma Decimal_of_str_abc: "Decimal_of_str ''abc'' = None"
  by (simp add: parse_defs)

lemma convert_rate_2_of_12_50:
  "convert_to_usd (Inr (JObj [(''rates'', JObj [(''USD'', JInt 2)])])) (Finite False 1250 (- 2)) =
     Inr (Finite False 2500 (- 2))"
  by (simp add: convert_to_usd_def get_exchange_rate_def dict_get_default_def
        Decimal_of_int_def mul_defs)

lemma fix_finite_in_range:
  assumes "int (ndigits c) + e \<le> Emax"
  shows "\<exists>x. fix_finite sign c e = Inr x"
proof -
  have a: "\<not> Etop < int (ndigits c) + e - int prec"
    using assms by (simp add: Etop_def prec_def)
  have b: "\<not> Etop < max (int (ndigits c) + e - int prec) Etiny + 1"
    using assms by (simp add: Etop_def Etiny_def Emax_def Emin_def prec_def)
  have c: "\<not> Etop < max (int (ndigits c) + e - int prec) Etiny"
    using b by linarith
  show ?thesis
    unfolding fix_finite_def Let_def using a b c by simp
qed

lemma mul_zero_finite:
  "mul (Finite False 0 0) (Finite rs rc re) = Inr (Finite rs 0 (min (max re Etiny) Emax))"
  by (simp add: mul_def fix_finite_def)

lemma convert_finite_rate:
  assumes "get_exchange_rate f = Inr x" and "Decimal_of_json x = Inr (Finite rs rc re)"
  shows "convert_to_usd f (Finite sg c e) = fix_finite (sg \<noteq> rs) (c * rc) (e + re)"
  using assms by (simp add: convert_to_usd_def mul_def)

lemma convert_snan_invalid:
  assumes "get_exchange_rate f = Inr x" and "Decimal_of_json x = Inr r"
  shows "convert_to_usd f (NaN sg True p) = Inl InvalidOperation"
  using assms by (simp add: convert_to_usd_def mul_def)

lemma convert_snan_raises: "\<exists>e. convert_to_usd f (NaN sg True p) = Inl e"
  by (simp add: convert_to_usd_def mul_def split: sum.splits)

lemma lower_sNaN: "lower ''sNaN'' = ''snan''"
  by (simp add: lower_def lower_char_def char_of_def bit_Suc_0_iff)

lemma lower_Infinity: "lower ''Infinity'' = ''infinity''"
  by (simp add: lower_def lower_char_def char_of_def bit_Suc_0_iff)

lemma Decimal_of_str_sNaN: "Decimal_of_str ''sNaN'' = Some (NaN False True 0)"
  by (simp add: Decimal_of_str_def strip_def is_space_def parse_special_def lower_sNaN
        nat_of_digits_def Let_def)

lemma Decimal_of_str_Infinity: "Decimal_of_str ''Infinity'' = Some (Infinity False)"
  by (simp add: Decimal_of_str_def strip_def is_space_def parse_special_def lower_Infinity
        Let_def)

lemma Decimal_of_str_9e999999: "Decimal_of_str ''9e999999'' = Some (Finite False 9 999999)"
  by (simp add: parse_defs)

lemma convert_rate_2_overflows:
  "convert_to_usd (Inr (JObj [(''rates'', JObj [(''USD'', JInt 2)])])) (Finite False 9 999999) =
     Inl Overflow"
  by (simp add: convert_to_usd_def get_exchange_rate_def dict_get_default_def
        Decimal_of_int_def mul_defs)

lemma convert_rate_0_of_infinity:
  "convert_to_usd (Inr (JObj [(''rates'', JObj [(''USD'', JInt 0)])])) (Infinity False) =
     Inl InvalidOperation"
  by (simp add: convert_to_usd_def get_exchange_rate_def dict_get_default_def
        Decimal_of_int_def mul_def)

text \<open>
  Claim C7, as the code has it. The amount text is parsed exactly: digits, a point and
  digits give the decimal with those digits as coefficient and one negative exponent per
  digit after the point (\<open>12.50\<close> gives 1250 with exponent -2), and digits alone give the
  integer. A text that the constructor refuses, such as \<open>abc\<close>, gives zero and raises
  nothing. The parsing never raises, but the multiplication by the rate that follows it is
  not guarded. With a rate that is a finite decimal, \<open>done\<close> goes on to post the record
  for every refused text (the amount is a zero) and for every text parsed to a finite
  decimal whose product with the rate has an adjusted exponent below \<open>Emax\<close> (the amount
  is the product rounded to the context). It does not go on for every text that parses: a
  text parsed to a signalling NaN makes \<open>done\<close> raise whatever the rate service
  answers, \<open>InvalidOperation\<close> as soon as the rate is a decimal, and every exception of
  the conversion leaves \<open>done\<close> with nothing posted and the dictionary uncleared.
\<close>

theorem amount_of_text_parse:
  "amount_of_text ''12.50'' = Finite False 1250 (- 2) \<and>
   (list_all is_digit ip \<and> list_all is_digit fp \<and> (ip \<noteq> [] \<or> fp \<noteq> []) \<and>
    length ip + length fp \<le> 4096 \<longrightarrow>
      amount_of_text (ip @ ''.'' @ fp) =
        Finite False (nat_of_digits (ip @ fp)) (- int (length fp))) \<and>
   (list_all is_digit ds \<and> ds \<noteq> [] \<and> length ds \<le> 4096 \<longrightarrow>
      amount_of_text ds = Finite False (nat_of_digits ds) 0) \<and>
   Decimal_of_str ''abc'' = None \<and>
   (Decimal_of_str t = None \<longrightarrow> amount_of_text t = Finite False 0 0) \<and>
   (Decimal_of_str t' = Some d \<longrightarrow> amount_of_text t' = d) \<and>
   (ud = filter (\<lambda>(k, v). k \<noteq> ''choice'') (user_data s) \<and>
    Decimal_of_str (dict_get_default ud ''Amount in GHS'' ''0'') = None \<and>
    get_exchange_rate (fetched_rates env) = Inr x \<and>
    Decimal_of_json x = Inr (Finite rs rc re) \<and>
    airtable_url (dict_get_default ud ''Apt'' ''108'') = Inr url \<longrightarrow>
      posts (snd (done_handler env u s)) =
        posts s @
          [(url, \<lparr>fld_Name = dict_get_default ud ''Name of Expense'' ''Unknown'',
                  fld_Month = now_month env,
                  fld_Category = dict_get_default ud ''Expense Type'' ''Uncategorized'',
                  fld_Expense = Finite rs 0 (min (max re Etiny) Emax),
                  fld_Notes = dict_get_default ud ''Notes'' [],
                  fld_Date = now_date env\<rparr>)]) \<and>
   (udp = filter (\<lambda>(k, v). k \<noteq> ''choice'') (user_data sp) \<and>
    Decimal_of_str (dict_get_default udp ''Amount in GHS'' ''0'') = Some (Finite sgp cp ep) \<and>
    get_exchange_rate (fetched_rates envp) = Inr xp \<and>
    Decimal_of_json xp = Inr (Finite rsp rcp rep) \<and>
    int (ndigits (cp * rcp)) + (ep + rep) \<le> Emax \<and>
    airtable_url (dict_get_default udp ''Apt'' ''108'') = Inr urlp \<longrightarrow>
      (\<exists>usd. fix_finite (sgp \<noteq> rsp) (cp * rcp) (ep + rep) = Inr usd \<and>
         posts (snd (done_handler envp up sp)) =
           posts sp @
             [(urlp, \<lparr>fld_Name = dict_get_default udp ''Name of Expense'' ''Unknown'',
                      fld_Month = now_month envp,
                      fld_Category = dict_get_default udp ''Expense Type'' ''Uncategorized'',
                      fld_Expense = usd,
                      fld_Notes = dict_get_default udp ''Notes'' [],
                      fld_Date = now_date envp\<rparr>)])) \<and>
   (udn = filter (\<lambda>(k, v). k \<noteq> ''choice'') (user_data sn) \<and>
    Decimal_of_str (dict_get_default udn ''Amount in GHS'' ''0'') = Some (NaN nsg True pn) \<longrightarrow>
      (\<exists>e. done_handler envn un sn = (Inl e, sn\<lparr>user_data := udn\<rparr>))) \<and>
   (udn = filter (\<lambda>(k, v). k \<noteq> ''choice'') (user_data sn) \<and>
    Decimal_of_str (dict_get_default udn ''Amount in GHS'' ''0'') = Some (NaN nsg True pn) \<and>
    get_exchange_rate (fetched_rates envn) = Inr xn \<and>
    Decimal_of_json xn = Inr rn \<longrightarrow>
      done_handler envn un sn = (Inl InvalidOperation, sn\<lparr>user_data := udn\<rparr>)) \<and>
   (ude = filter (\<lambda>(k, v). k \<noteq> ''choice'') (user_data se) \<and>
    convert_to_usd (fetched_rates enve)
      (amount_of_text (dict_get_default ude ''Amount in GHS'' ''0'')) = Inl err \<longrightarrow>
      done_handler enve ue se = (Inl err, se\<lparr>user_data := ude\<rparr>))"
proof (intro conjI impI)
  show "amount_of_text ''12.50'' = Finite False 1250 (- 2)"
    by (rule amount_of_text_12_50)
  show "Decimal_of_str ''abc'' = None"
    by (rule Decimal_of_str_abc)
next
  assume "list_all is_digit ip \<and> list_all is_digit fp \<and> (ip \<noteq> [] \<or> fp \<noteq> []) \<and>
    length ip + length fp \<le> 4096"
  then show "amount_of_text (ip @ ''.'' @ fp) =
        Finite False (nat_of_digits (ip @ fp)) (- int (length fp))"
    using Decimal_of_str_pointed [of ip fp] by (simp add: amount_of_text_def)
next
  assume "list_all is_digit ds \<and> ds \<noteq> [] \<and> length ds \<le> 4096"
  then show "amount_of_text ds = Finite False (nat_of_digits ds) 0"
    using Decimal_of_str_digits [of ds] by (simp add: amount_of_text_def)
next
  assume "Decimal_of_str t = None"
  then show "amount_of_text t = Finite False 0 0"
    by (simp add: amount_of_text_def Decimal_of_int_def)
next
  assume "Decimal_of_str t' = Some d"
  then show "amount_of_text t' = d"
    by (simp add: amount_of_text_def)
next
  assume a: "ud = filter (\<lambda>(k, v). k \<noteq> ''choice'') (user_data s) \<and>
    Decimal_of_str (dict_get_default ud ''Amount in GHS'' ''0'') = None \<and>
    get_exchange_rate (fetched_rates env) = Inr x \<and>
    Decimal_of_json x = Inr (Finite rs rc re) \<and>
    airtable_url (dict_get_default ud ''Apt'' ''108'') = Inr url"
  then have a1: "ud = filter (\<lambda>(k, v). k \<noteq> ''choice'') (user_data s)"
    and a2: "Decimal_of_str (dict_get_default ud ''Amount in GHS'' ''0'') = None"
    and a3: "get_exchange_rate (fetched_rates env) = Inr x"
    and a4: "Decimal_of_json x = Inr (Finite rs rc re)"
    and a5: "airtable_url (dict_get_default ud ''Apt'' ''108'') = Inr url"
    by blast+
  from a2 have "amount_of_text (dict_get_default ud ''Amount in GHS'' ''0'') = Finite False 0 0"
    by (simp add: amount_of_text_def Decimal_of_int_def)
  with a3 a4 have "convert_to_usd (fetched_rates env)
               (amount_of_text (dict_get_default ud ''Amount in GHS'' ''0'')) =
             Inr (Finite rs 0 (min (max re Etiny) Emax))"
    by (simp add: convert_to_usd_def mul_zero_finite)
  then show "posts (snd (done_handler env u s)) =
        posts s @
          [(url, \<lparr>fld_Name = dict_get_default ud ''Name of Expense'' ''Unknown'',
                  fld_Month = now_month env,
                  fld_Category = dict_get_default ud ''Expense Type'' ''Uncategorized'',
                  fld_Expense = Finite rs 0 (min (max re Etiny) Emax),
                  fld_Notes = dict_get_default ud ''Notes'' [],
                  fld_Date = now_date env\<rparr>)]"
    using a1 a5 by (rule done_handler_posts)
next
  assume a: "udp = filter (\<lambda>(k, v). k \<noteq> ''choice'') (user_data sp) \<and>
    Decimal_of_str (dict_get_default udp ''Amount in GHS'' ''0'') = Some (Finite sgp cp ep) \<and>
    get_exchange_rate (fetched_rates envp) = Inr xp \<and>
    Decimal_of_json xp = Inr (Finite rsp rcp rep) \<and>
    int (ndigits (cp * rcp)) + (ep + rep) \<le> Emax \<and>
    airtable_url (dict_get_default udp ''Apt'' ''108'') = Inr urlp"
  then have a1: "udp = filter (\<lambda>(k, v). k \<noteq> ''choice'') (user_data sp)"
    and a2: "Decimal_of_str (dict_get_default udp ''Amount in GHS'' ''0'') =
               Some (Finite sgp cp ep)"
    and a3: "get_exchange_rate (fetched_rates envp) = Inr xp"
    and a4: "Decimal_of_json xp = Inr (Finite rsp rcp rep)"
    and a5: "int (ndigits (cp * rcp)) + (ep + rep) \<le> Emax"
    and a6: "airtable_url (dict_get_default udp ''Apt'' ''108'') = Inr urlp"
    by blast+
  from fix_finite_in_range [OF a5] obtain usd
    where f: "fix_finite (sgp \<noteq> rsp) (cp * rcp) (ep + rep) = Inr usd"
    by blast
  from a2 have "amount_of_text (dict_get_default udp ''Amount in GHS'' ''0'') = Finite sgp cp ep"
    by (simp add: amount_of_text_def)
  with f have "convert_to_usd (fetched_rates envp)
               (amount_of_text (dict_get_default udp ''Amount in GHS'' ''0'')) = Inr usd"
    by (simp add: convert_finite_rate [OF a3 a4])
  then have "posts (snd (done_handler envp up sp)) =
           posts sp @
             [(urlp, \<lparr>fld_Name = dict_get_default udp ''Name of Expense'' ''Unknown'',
                      fld_Month = now_month envp,
                      fld_Category = dict_get_default udp ''Expense Type'' ''Uncategorized'',
                      fld_Expense = usd,
                      fld_Notes = dict_get_default udp ''Notes'' [],
                      fld_Date = now_date envp\<rparr>)]"
    using a1 a6 by (rule done_handler_posts)
  with f show "\<exists>usd. fix_finite (sgp \<noteq> rsp) (cp * rcp) (ep + rep) = Inr usd \<and>
         posts (snd (done_handler envp up sp)) =
           posts sp @
             [(urlp, \<lparr>fld_Name = dict_get_default udp ''Name of Expense'' ''Unknown'',
                      fld_Month = now_month envp,
                      fld_Category = dict_get_default udp ''Expense Type'' ''Uncategorized'',
                      fld_Expense = usd,
                      fld_Notes = dict_get_default udp ''Notes'' [],
                      fld_Date = now_date envp\<rparr>)]"
    by blast
next
  assume a: "udn = filter (\<lambda>(k, v). k \<noteq> ''choice'') (user_data sn) \<and>
    Decimal_of_str (dict_get_default udn ''Amount in GHS'' ''0'') = Some (NaN nsg True pn)"
  then have a1: "udn = filter (\<lambda>(k, v). k \<noteq> ''choice'') (user_data sn)"
    and a2: "Decimal_of_str (dict_get_default udn ''Amount in GHS'' ''0'') =
               Some (NaN nsg True pn)"
    by blast+
  from a2 have n: "amount_of_text (dict_get_default udn ''Amount in GHS'' ''0'') = NaN nsg True pn"
    by (simp add: amount_of_text_def)
  from convert_snan_raises [of "fetched_rates envn" nsg pn] obtain e
    where "convert_to_usd (fetched_rates envn) (NaN nsg True pn) = Inl e"
    by blast
  with n have "convert_to_usd (fetched_rates envn)
                 (amount_of_text (dict_get_default udn ''Amount in GHS'' ''0'')) = Inl e"
    by simp
  then have "done_handler envn un sn = (Inl e, sn\<lparr>user_data := udn\<rparr>)"
    using a1 by (rule done_handler_raises_in_conversion)
  then show "\<exists>e. done_handler envn un sn = (Inl e, sn\<lparr>user_data := udn\<rparr>)"
    by blast
next
  assume a: "udn = filter (\<lambda>(k, v). k \<noteq> ''choice'') (user_data sn) \<and>
    Decimal_of_str (dict_get_default udn ''Amount in GHS'' ''0'') = Some (NaN nsg True pn) \<and>
    get_exchange_rate (fetched_rates envn) = Inr xn \<and>
    Decimal_of_json xn = Inr rn"
  then have a1: "udn = filter (\<lambda>(k, v). k \<noteq> ''choice'') (user_data sn)"
    and a2: "Decimal_of_str (dict_get_default udn ''Amount in GHS'' ''0'') =
               Some (NaN nsg True pn)"
    and a3: "get_exchange_rate (fetched_rates envn) = Inr xn"
    and a4: "Decimal_of_json xn = Inr rn"
    by blast+
  from a2 have "amount_of_text (dict_get_default udn ''Amount in GHS'' ''0'') = NaN nsg True pn"
    by (simp add: amount_of_text_def)
  then have "convert_to_usd (fetched_rates envn)
                 (amount_of_text (dict_get_default udn ''Amount in GHS'' ''0'')) =
               Inl InvalidOperation"
    by (simp add: convert_snan_invalid [OF a3 a4])
  then show "done_handler envn un sn = (Inl InvalidOperation, sn\<lparr>user_data := udn\<rparr>)"
    using a1 by (rule done_handler_raises_in_conversion)
next
  assume a: "ude = filter (\<lambda>(k, v). k \<noteq> ''choice'') (user_data se) \<and>
    convert_to_usd (fetched_rates enve)
      (amount_of_text (dict_get_default ude ''Amount in GHS'' ''0'')) = Inl err"
  then have a1: "ude = filter (\<lambda>(k, v). k \<noteq> ''choice'') (user_data se)"
    and a2: "convert_to_usd (fetched_rates enve)
      (amount_of_text (dict_get_default ude ''Amount in GHS'' ''0'')) = Inl err"
    by blast+
  from a2 a1 show "done_handler enve ue se = (Inl err, se\<lparr>user_data := ude\<rparr>)"
    by (rule done_handler_raises_in_conversion)
qed

theorem amount_of_text_parse_witness:
  "amount_of_text ''12.50'' = Finite False 1250 (- 2) \<and>
   amount_of_text ''7'' = Finite False 7 0 \<and>
   amount_of_text ''abc'' = Finite False 0 0 \<and>
   posts (snd (done_handler
     \<lparr>fetched_rates = Inr (JObj [(''rates'', JObj [(''USD'', JInt 2)])]),
      posted = store_answers JNull,
      now_month = ''November'', now_date = ''2026-11-04''\<rparr>
     (Message ''Done'' False)
     \<lparr>user_data = [(''Amount in GHS'', ''abc'')], sent = [], posts = []\<rparr>)) =
   [(url_108,
     \<lparr>fld_Name = ''Unknown'', fld_Month = ''November'', fld_Category = ''Uncategorized'',
      fld_Expense = Finite False 0 0, fld_Notes = [], fld_Date = ''2026-11-04''\<rparr>)] \<and>
   posts (snd (done_handler
     \<lparr>fetched_rates = Inr (JObj [(''rates'', JObj [(''USD'', JInt 2)])]),
      posted = store_answers JNull,
      now_month = ''November'', now_date = ''2026-11-04''\<rparr>
     (Message ''Done'' False)
     \<lparr>user_data = [(''Amount in GHS'', ''12.50'')], sent = [], posts = []\<rparr>)) =
   [(url_108,
     \<lparr>fld_Name = ''Unknown'', fld_Month = ''November'', fld_Category = ''Uncategorized'',
      fld_Expense = Finite False 2500 (- 2), fld_Notes = [], fld_Date = ''2026-11-04''\<rparr>)] \<and>
   done_handler
     \<lparr>fetched_rates = Inr (JObj [(''rates'', JObj [(''USD'', JInt 2)])]),
      posted = store_answers JNull,
      now_month = ''November'', now_date = ''2026-11-04''\<rparr>
     (Message ''Done'' False)
     \<lparr>user_data = [(''Amount in GHS'', ''snan'')], sent = [], posts = []\<rparr> =
   (Inl InvalidOperation,
    \<lparr>user_data = [(''Amount in GHS'', ''snan'')], sent = [], posts = []\<rparr>) \<and>
   done_handler
     \<lparr>fetched_rates = Inl RequestsError, posted = store_answers JNull,
      now_month = ''November'', now_date = ''2026-11-04''\<rparr>
     (Message ''Done'' False)
     \<lparr>user_data = [(''Amount in GHS'', ''12.50'')], sent = [], posts = []\<rparr> =
   (Inl RequestsError,
    \<lparr>user_data = [(''Amount in GHS'', ''12.50'')], sent = [], posts = []\<rparr>)"
proof -
  let ?env = "\<lparr>fetched_rates = Inr (JObj [(''rates'', JObj [(''USD'', JInt 2)])]),
                posted = store_answers JNull,
                now_month = ''November'', now_date = ''2026-11-04''\<rparr>"
  let ?enve = "\<lparr>fetched_rates = Inl RequestsError, posted = store_answers JNull,
                 now_month = ''November'', now_date = ''2026-11-04''\<rparr>"
  let ?s = "\<lparr>user_data = [(''Amount in GHS'', ''abc'')], sent = [], posts = []\<rparr>"
  let ?sp = "\<lparr>user_data = [(''Amount in GHS'', ''12.50'')], sent = [], posts = []\<rparr>"
  let ?sn = "\<lparr>user_data = [(''Amount in GHS'', ''snan'')], sent = [], posts = []\<rparr>"
  have digits: "list_all is_digit ''12''" "list_all is_digit ''50''" "list_all is_digit ''7''"
    by (simp_all add: is_digit_def)
  have vals: "nat_of_digits ''1250'' = 1250" "nat_of_digits ''7'' = 7"
    by (simp_all add: nat_of_digits_def digit_val_def)
  have p: "Decimal_of_str ''12.50'' = Some (Finite False 1250 (- 2))"
    by (simp add: parse_defs)
  have n: "Decimal_of_str ''snan'' = Some (NaN False True 0)"
    by (simp add: parse_defs)
  have a: "[(''Amount in GHS'', ''abc'')] = filter (\<lambda>(k, v). k \<noteq> ''choice'') (user_data ?s)"
    and ap: "[(''Amount in GHS'', ''12.50'')] =
               filter (\<lambda>(k, v). k \<noteq> ''choice'') (user_data ?sp)"
    and an: "[(''Amount in GHS'', ''snan'')] =
               filter (\<lambda>(k, v). k \<noteq> ''choice'') (user_data ?sn)"
    by simp_all
  have b: "Decimal_of_str (dict_get_default [(''Amount in GHS'', ''abc'')] ''Amount in GHS'' ''0'')
             = None"
    and bp: "Decimal_of_str
               (dict_get_default [(''Amount in GHS'', ''12.50'')] ''Amount in GHS'' ''0'') =
             Some (Finite False 1250 (- 2))"
    and bn: "Decimal_of_str
               (dict_get_default [(''Amount in GHS'', ''snan'')] ''Amount in GHS'' ''0'') =
             Some (NaN False True 0)"
    by (simp_all add: dict_get_default_def Decimal_of_str_abc p n)
  have r: "get_exchange_rate (fetched_rates ?env) = Inr (JInt 2)"
    by (simp add: get_exchange_rate_def dict_get_default_def)
  have rd: "Decimal_of_json (JInt 2) = Inr (Finite False 2 0)"
    by (simp add: Decimal_of_int_def)
  have rng: "int (ndigits (1250 * 2)) + (- 2 + 0) \<le> Emax"
    by (simp add: ndigits.simps Emax_def)
  have prod: "fix_finite (False \<noteq> False) (1250 * 2) (- 2 + 0) = Inr (Finite False 2500 (- 2))"
    by (simp add: mul_defs)
  have zero: "min (max 0 Etiny) Emax = 0"
    by (simp add: Etiny_def Emax_def Emin_def prec_def)
  have e: "convert_to_usd (fetched_rates ?enve)
             (amount_of_text
                (dict_get_default [(''Amount in GHS'', ''12.50'')] ''Amount in GHS'' ''0'')) =
           Inl RequestsError"
    by (simp add: convert_to_usd_def get_exchange_rate_def)
  have u: "airtable_url (dict_get_default [(''Amount in GHS'', ''abc'')] ''Apt'' ''108'') =
             Inr url_108"
    and up: "airtable_url (dict_get_default [(''Amount in GHS'', ''12.50'')] ''Apt'' ''108'') =
               Inr url_108"
    by (simp_all add: dict_get_default_def airtable_url_def)
  from amount_of_text_parse
         [where ip = "''12''" and fp = "''50''" and ds = "''7''" and t = "''abc''"
            and t' = "''12.50''" and d = "Finite False 1250 (- 2)"
            and ud = "[(''Amount in GHS'', ''abc'')]" and s = "?s" and env = "?env"
            and x = "JInt 2" and rs = False and rc = 2 and re = 0
            and url = url_108 and u = "Message ''Done'' False"
            and udp = "[(''Amount in GHS'', ''12.50'')]" and sp = "?sp" and envp = "?env"
            and sgp = False and cp = 1250 and ep = "- 2"
            and xp = "JInt 2" and rsp = False and rcp = 2 and rep = 0
            and urlp = url_108 and up = "Message ''Done'' False"
            and udn = "[(''Amount in GHS'', ''snan'')]" and sn = "?sn" and envn = "?env"
            and nsg = False and pn = 0 and xn = "JInt 2" and rn = "Finite False 2 0"
            and un = "Message ''Done'' False"
            and ude = "[(''Amount in GHS'', ''12.50'')]" and se = "?sp" and enve = "?enve"
            and err = RequestsError and ue = "Message ''Done'' False"]
       digits vals p a ap an b bp bn r rd rng prod zero e u up Decimal_of_str_abc
  show ?thesis
    by (simp add: dict_get_default_def)
qed

text \<open>
  The claim as stated fails: \<open>done\<close> does not go on for every text that parses. The
  text \<open>sNaN\<close> is accepted by the constructor and the product with the rate 2 raises
  \<open>InvalidOperation\<close>; \<open>9e999999\<close> is a number and its product with the rate 2
  raises \<open>Overflow\<close>; \<open>Infinity\<close> at the rate 0 raises \<open>InvalidOperation\<close>. In each
  case nothing is posted, no reply is sent and the dictionary is not cleared.
\<close>

theorem done_handler_raises_on_parsed_amount:
  "Decimal_of_str ''sNaN'' = Some (NaN False True 0) \<and>
   done_handler
     \<lparr>fetched_rates = Inr (JObj [(''rates'', JObj [(''USD'', JInt 2)])]),
      posted = store_answers JNull,
      now_month = ''November'', now_date = ''2026-11-04''\<rparr>
     (Message ''Done'' False)
     \<lparr>user_data = [(''Amount in GHS'', ''sNaN'')], sent = [], posts = []\<rparr> =
   (Inl InvalidOperation,
    \<lparr>user_data = [(''Amount in GHS'', ''sNaN'')], sent = [], posts = []\<rparr>) \<and>
   Decimal_of_str ''9e999999'' = Some (Finite False 9 999999) \<and>
   done_handler
     \<lparr>fetched_rates = Inr (JObj [(''rates'', JObj [(''USD'', JInt 2)])]),
      posted = store_answers JNull,
      now_month = ''November'', now_date = ''2026-11-04''\<rparr>
     (Message ''Done'' False)
     \<lparr>user_data = [(''Amount in GHS'', ''9e999999'')], sent = [], posts = []\<rparr> =
   (Inl Overflow,
    \<lparr>user_data = [(''Amount in GHS'', ''9e999999'')], sent = [], posts = []\<rparr>) \<and>
   Decimal_of_str ''Infinity'' = Some (Infinity False) \<and>
   done_handler
     \<lparr>fetched_rates = Inr (JObj [(''rates'', JObj [(''USD'', JInt 0)])]),
      posted = store_answers JNull,
      now_month = ''November'', now_date = ''2026-11-04''\<rparr>
     (Message ''Done'' False)
     \<lparr>user_data = [(''Amount in GHS'', ''Infinity'')], sent = [], posts = []\<rparr> =
   (Inl InvalidOperation,
    \<lparr>user_data = [(''Amount in GHS'', ''Infinity'')], sent = [], posts = []\<rparr>)"
proof -
  let ?env = "\<lparr>fetched_rates = Inr (JObj [(''rates'', JObj [(''USD'', JInt 2)])]),
                posted = store_answers JNull,
                now_month = ''November'', now_date = ''2026-11-04''\<rparr>"
  let ?envz = "\<lparr>fetched_rates = Inr (JObj [(''rates'', JObj [(''USD'', JInt 0)])]),
                 posted = store_answers JNull,
                 now_month = ''November'', now_date = ''2026-11-04''\<rparr>"
  let ?sa = "\<lparr>user_data = [(''Amount in GHS'', ''sNaN'')], sent = [], posts = []\<rparr>"
  let ?sb = "\<lparr>user_data = [(''Amount in GHS'', ''9e999999'')], sent = [], posts = []\<rparr>"
  let ?sc = "\<lparr>user_data = [(''Amount in GHS'', ''Infinity'')], sent = [], posts = []\<rparr>"
  have r: "get_exchange_rate (fetched_rates ?env) = Inr (JInt 2)"
    by (simp add: get_exchange_rate_def dict_get_default_def)
  have rd: "Decimal_of_json (JInt 2) = Inr (Finite False 2 0)"
    by (simp add: Decimal_of_int_def)
  have c1: "convert_to_usd (fetched_rates ?env)
              (amount_of_text
                 (dict_get_default [(''Amount in GHS'', ''sNaN'')] ''Amount in GHS'' ''0'')) =
            Inl InvalidOperation"
    using convert_snan_invalid [OF r rd, of False 0]
    by (simp add: dict_get_default_def amount_of_text_def Decimal_of_str_sNaN)
  have c2: "convert_to_usd (fetched_rates ?env)
              (amount_of_text
                 (dict_get_default [(''Amount in GHS'', ''9e999999'')] ''Amount in GHS'' ''0'')) =
            Inl Overflow"
    by (simp add: dict_get_default_def amount_of_text_def Decimal_of_str_9e999999
          convert_rate_2_overflows)
  have c3: "convert_to_usd (fetched_rates ?envz)
              (amount_of_text
                 (dict_get_default [(''Amount in GHS'', ''Infinity'')] ''Amount in GHS'' ''0'')) =
            Inl InvalidOperation"
    by (simp add: dict_get_default_def amount_of_text_def Decimal_of_str_Infinity
          convert_rate_0_of_infinity)
  have d1: "done_handler ?env (Message ''Done'' False) ?sa = (Inl InvalidOperation, ?sa)"
    using done_handler_raises_in_conversion [OF c1, of ?sa "Message ''Done'' False"] by simp
  have d2: "done_handler ?env (Message ''Done'' False) ?sb = (Inl Overflow, ?sb)"
    using done_handler_raises_in_conversion [OF c2, of ?sb "Message ''Done'' False"] by simp
  have d3: "done_handler ?envz (Message ''Done'' False) ?sc = (Inl InvalidOperation, ?sc)"
    using done_handler_raises_in_conversion [OF c3, of ?sc "Message ''Done'' False"] by simp
  from d1 d2 d3 Decimal_of_str_sNaN Decimal_of_str_9e999999 Decimal_of_str_Infinity
  show ?thesis by simp
qed

end
